theory Spec2Isabelle
  imports Complex_Main "HOL-Library.Word"
begin

unbundle bit_operations_syntax

section \<open>Python values shared by the modules\<close>

text \<open>
  A \<^verbatim>\<open>bytearray\<close> is a list of 8-bit words. Python's unbounded integers are
  \<^typ>\<open>int\<close>. A \<^verbatim>\<open>str\<close> is a \<^typ>\<open>string\<close>; the descriptors' strings
  are ASCII. Exceptions (the subclasses of \<^verbatim>\<open>Exception\<close>) are values of
  \<open>exn\<close>; a computation that may raise returns \<open>exn + 'a\<close> with \<open>Inl\<close> for the
  exception.
\<close>

type_synonym byte = "8 word"

datatype exn =
    ValueError
  | TypeError
  | IndexError
  | KeyError
  | OverflowError
  | AttributeError
  | StructError
  | ImportError
  | TimeoutError
  | TransportDown
  | HomeAssistantError
  | ConfigEntryNotReady
  | NotImplementedError
  | OtherException string

text \<open>
  Python's slice \<^verbatim>\<open>xs[start:stop]\<close>: a negative bound counts from the end, and
  both bounds are clamped to the sequence, so a slice never raises.
\<close>

definition py_slice :: "'a list \<Rightarrow> int \<Rightarrow> int \<Rightarrow> 'a list" where
  "py_slice xs start stop =
     (let n = int (length xs);
          clamp = (\<lambda>i. if i < 0 then max 0 (i + n) else min i n);
          a = clamp start;
          b = clamp stop
      in take (nat (b - a)) (drop (nat a) xs))"

subsection \<open>Floats\<close>

text \<open>
  A Python \<^verbatim>\<open>float\<close> is an IEEE 754 double. A finite one is its sign and the
  exact rational magnitude (so \<open>Finite True 0\<close> is \<^verbatim>\<open>-0.0\<close>); the rounding of
  every operation is written out: \<open>round_to_double\<close> rounds a magnitude to the nearest
  double, ties to the even significand, with 53 significant bits, gradual underflow below
  \<open>pow2 (- 1022)\<close> and overflow (\<open>None\<close>) from \<open>pow2 1024\<close> on.
\<close>

datatype pyfloat = Finite bool rat | Infinity bool | NaN

definition pow2 :: "int \<Rightarrow> rat" where
  "pow2 k = (if 0 \<le> k then 2 ^ nat k else 1 / 2 ^ nat (- k))"

definition pow10 :: "int \<Rightarrow> rat" where
  "pow10 k = (if 0 \<le> k then 10 ^ nat k else 1 / 10 ^ nat (- k))"

fun bit_length :: "nat \<Rightarrow> nat" where
  "bit_length n = (if n = 0 then 0 else Suc (bit_length (n div 2)))"

declare bit_length.simps [simp del]

fun dec_length :: "nat \<Rightarrow> nat" where
  "dec_length n = (if n < 10 then 1 else Suc (dec_length (n div 10)))"

declare dec_length.simps [simp del]

definition round_half_even :: "rat \<Rightarrow> int" where
  "round_half_even q =
     (let f = \<lfloor>q\<rfloor>; d = q - of_int f
      in if d < 1 / 2 then f else if 1 / 2 < d then f + 1
         else if even f then f else f + 1)"

definition floor_log2 :: "rat \<Rightarrow> int" where
  "floor_log2 q =
     (if 1 \<le> q then int (bit_length (nat \<lfloor>q\<rfloor>)) - 1
      else
        let t = int (bit_length (nat \<lfloor>1 / q\<rfloor>)) - 1
        in if pow2 (- t) \<le> q then - t else - t - 1)"

definition ceil_log10 :: "rat \<Rightarrow> int" where
  "ceil_log10 q =
     (if 1 \<le> q then int (dec_length (nat \<lfloor>q\<rfloor>))
      else
        let t = int (dec_length (nat \<lfloor>1 / q\<rfloor>))
        in if pow10 (1 - t) \<le> q then 2 - t else 1 - t)"

definition round_to_double :: "rat \<Rightarrow> rat option" where
  "round_to_double q =
     (if q = 0 then Some 0
      else
        let e = max (floor_log2 q) (- 1022);
            ulp = pow2 (e - 52);
            r = of_int (round_half_even (q / ulp)) * ulp
        in if pow2 1024 \<le> r then None else Some r)"

definition make_float :: "bool \<Rightarrow> rat \<Rightarrow> pyfloat" where
  "make_float neg q = (case round_to_double q of None \<Rightarrow> Infinity neg | Some r \<Rightarrow> Finite neg r)"

text \<open>
  \<^verbatim>\<open>int * float\<close> converts the integer first; an integer beyond the doubles raises
  \<^verbatim>\<open>OverflowError\<close>. The product of two floats is rounded once and never raises.
\<close>

definition float_of_int :: "int \<Rightarrow> exn + pyfloat" where
  "float_of_int i =
     (case round_to_double (of_int \<bar>i\<bar>) of
        None \<Rightarrow> Inl OverflowError
      | Some r \<Rightarrow> Inr (Finite (i < 0) r))"

fun float_mul :: "pyfloat \<Rightarrow> pyfloat \<Rightarrow> pyfloat" where
  "float_mul NaN _ = NaN"
| "float_mul _ NaN = NaN"
| "float_mul (Infinity s) (Infinity t) = Infinity (s \<noteq> t)"
| "float_mul (Infinity s) (Finite t m) = (if m = 0 then NaN else Infinity (s \<noteq> t))"
| "float_mul (Finite s m) (Infinity t) = (if m = 0 then NaN else Infinity (s \<noteq> t))"
| "float_mul (Finite s m) (Finite t n) = make_float (s \<noteq> t) (m * n)"

text \<open>
  \<^verbatim>\<open>round(x, ndigits)\<close> for \<open>ndigits \<ge> 0\<close>: the exact value of \<open>x\<close> is rounded
  to \<open>ndigits\<close> decimals, ties to even, and that decimal is read back as a double. NaN,
  the infinities and any \<open>x\<close> with more than 323 digits requested round to themselves.
\<close>

definition py_round :: "pyfloat \<Rightarrow> nat \<Rightarrow> pyfloat" where
  "py_round x ndigits =
     (case x of
        Finite neg m \<Rightarrow>
          if 323 < ndigits then x
          else make_float neg (of_int (round_half_even (m * 10 ^ ndigits)) / 10 ^ ndigits)
      | _ \<Rightarrow> x)"

text \<open>
  \<^verbatim>\<open>"{:.{precision}f}".format(x, precision=p)\<close>: the exact value of \<open>x\<close> rounded to
  \<open>p\<close> decimals, ties to even, printed with all \<open>p\<close> decimals.
\<close>

definition digit_char :: "nat \<Rightarrow> char" where
  "digit_char d = char_of (48 + d)"

fun str_nat :: "nat \<Rightarrow> string" where
  "str_nat n = (if n < 10 then [digit_char n] else str_nat (n div 10) @ [digit_char (n mod 10)])"

declare str_nat.simps [simp del]

definition format_fixed :: "pyfloat \<Rightarrow> nat \<Rightarrow> string" where
  "format_fixed x precision =
     (case x of
        NaN \<Rightarrow> ''nan''
      | Infinity neg \<Rightarrow> (if neg then ''-inf'' else ''inf'')
      | Finite neg m \<Rightarrow>
          let n = nat (round_half_even (m * 10 ^ precision));
              ip = str_nat (n div 10 ^ precision);
              fp = str_nat (n mod 10 ^ precision);
              frac = replicate (precision - length fp) CHR ''0'' @ fp
          in (if neg then ''-'' else '''') @ ip @ (if precision = 0 then '''' else ''.'' @ frac))"

text \<open>
  \<^verbatim>\<open>str(x)\<close> of a float is \<^verbatim>\<open>repr(x)\<close>: the shortest decimal that reads back as
  \<open>x\<close> (the nearer one when two of that length do), in exponent form when the decimal
  point would lie more than 16 places right or more than 3 zeros left of the digits.
\<close>

definition roundtrips :: "rat \<Rightarrow> rat \<Rightarrow> bool" where
  "roundtrips m q = (round_to_double q = Some m)"

fun shortest_digits :: "rat \<Rightarrow> int \<Rightarrow> nat \<Rightarrow> nat \<Rightarrow> nat \<times> nat" where
  "shortest_digits m p n fuel =
     (let unit = pow10 (p - int n);
          lo = nat \<lfloor>m / unit\<rfloor>;
          hi = lo + 1;
          oklo = roundtrips m (of_nat lo * unit);
          okhi = roundtrips m (of_nat hi * unit);
          dlo = m - of_nat lo * unit;
          dhi = of_nat hi * unit - m
      in if oklo \<and> (\<not> okhi \<or> dlo \<le> dhi) then (lo, n)
         else if okhi then (hi, n)
         else (case fuel of 0 \<Rightarrow> (lo, n) | Suc f \<Rightarrow> shortest_digits m p (Suc n) f))"

declare shortest_digits.simps [simp del]

fun strip_zeros :: "nat \<Rightarrow> nat" where
  "strip_zeros d = (if d \<noteq> 0 \<and> d mod 10 = 0 then strip_zeros (d div 10) else d)"

declare strip_zeros.simps [simp del]

definition str_exponent :: "int \<Rightarrow> string" where
  "str_exponent e =
     (let ds = str_nat (nat \<bar>e\<bar>)
      in (if e < 0 then ''-'' else ''+'') @ (if length ds < 2 then ''0'' @ ds else ds))"

definition float_repr :: "pyfloat \<Rightarrow> string" where
  "float_repr x =
     (case x of
        NaN \<Rightarrow> ''nan''
      | Infinity neg \<Rightarrow> (if neg then ''-inf'' else ''inf'')
      | Finite neg m \<Rightarrow>
          (if neg then ''-'' else '''') @
          (if m = 0 then ''0.0''
           else
             let p = ceil_log10 m;
                 (d, n) = shortest_digits m p 1 16;
                 decpt = (if d = 10 ^ n then p + 1 else p);
                 ds = str_nat (strip_zeros d);
                 k = int (length ds)
             in if decpt \<le> - 4 \<or> 16 < decpt then
                  [hd ds] @ (if 1 < k then ''.'' @ tl ds else '''') @ ''e'' @ str_exponent (decpt - 1)
                else if decpt \<le> 0 then ''0.'' @ replicate (nat (- decpt)) CHR ''0'' @ ds
                else if k \<le> decpt then ds @ replicate (nat (decpt - k)) CHR ''0'' @ ''.0''
                else take (nat decpt) ds @ ''.'' @ drop (nat decpt) ds))"

subsection \<open>Strings\<close>

text \<open>
  \<^verbatim>\<open>int(s)\<close> and \<^verbatim>\<open>float(s)\<close> strip white space, take a sign, and allow single
  underscores between digits; anything else raises \<^verbatim>\<open>ValueError\<close>.
  \<^verbatim>\<open>int\<close> refuses more than 4300 digits. \<^verbatim>\<open>float\<close> rounds the decimal to the
  nearest double and also reads \<^verbatim>\<open>inf\<close>, \<^verbatim>\<open>infinity\<close> and \<^verbatim>\<open>nan\<close>.
\<close>

definition is_space :: "char \<Rightarrow> bool" where
  "is_space c = (of_char c \<in> {9, 10, 11, 12, 13, 28, 29, 30, 31, 32 :: nat})"

definition is_digit :: "char \<Rightarrow> bool" where
  "is_digit c = (48 \<le> (of_char c :: nat) \<and> (of_char c :: nat) \<le> 57)"

definition digit_value :: "char \<Rightarrow> nat" where
  "digit_value c = of_char c - 48"

definition nat_of_digits :: "string \<Rightarrow> nat" where
  "nat_of_digits ds = foldl (\<lambda>acc c. 10 * acc + digit_value c) 0 ds"

definition py_strip :: "string \<Rightarrow> string" where
  "py_strip s = rev (dropWhile is_space (rev (dropWhile is_space s)))"

definition to_lower :: "char \<Rightarrow> char" where
  "to_lower c = (if 65 \<le> (of_char c :: nat) \<and> (of_char c :: nat) \<le> 90
                 then char_of (of_char c + 32 :: nat) else c)"

fun split_sign :: "string \<Rightarrow> bool \<times> string" where
  "split_sign [] = (False, [])"
| "split_sign (c # cs) =
     (if c = CHR ''-'' then (True, cs) else if c = CHR ''+'' then (False, cs) else (False, c # cs))"

fun underscores_ok :: "char \<Rightarrow> string \<Rightarrow> bool" where
  "underscores_ok prev [] = (prev \<noteq> CHR ''_'')"
| "underscores_ok prev (c # cs) =
     (if c = CHR ''_'' then is_digit prev \<and> underscores_ok c cs
      else (if prev = CHR ''_'' then is_digit c else True) \<and> underscores_ok c cs)"

definition py_int_of_str :: "string \<Rightarrow> exn + int" where
  "py_int_of_str s =
     (let (neg, body) = split_sign (py_strip s);
          ds = filter (\<lambda>c. c \<noteq> CHR ''_'') body
      in if \<not> underscores_ok CHR ''_'' body then Inl ValueError
         else if ds = [] \<or> \<not> list_all is_digit ds then Inl ValueError
         else if 4300 < length ds then Inl ValueError
         else Inr ((if neg then - 1 else 1) * int (nat_of_digits ds)))"

definition parse_exponent :: "string \<Rightarrow> int option" where
  "parse_exponent s =
     (let (neg, ds) = split_sign s
      in if ds = [] \<or> \<not> list_all is_digit ds then None
         else Some ((if neg then - 1 else 1) * int (nat_of_digits ds)))"

definition parse_decimal :: "string \<Rightarrow> rat option" where
  "parse_decimal s =
     (let ip = takeWhile is_digit s;
          r1 = dropWhile is_digit s;
          fp = (case r1 of c # cs \<Rightarrow> if c = CHR ''.'' then takeWhile is_digit cs else [] | [] \<Rightarrow> []);
          r2 = (case r1 of c # cs \<Rightarrow> if c = CHR ''.'' then dropWhile is_digit cs else r1 | [] \<Rightarrow> []);
          mant = of_nat (nat_of_digits (ip @ fp)) :: rat
      in if ip = [] \<and> fp = [] then None
         else (case r2 of
                 [] \<Rightarrow> Some (mant * pow10 (- int (length fp)))
               | c # cs \<Rightarrow>
                   if c = CHR ''e'' \<or> c = CHR ''E'' then
                     (case parse_exponent cs of
                        None \<Rightarrow> None
                      | Some e \<Rightarrow> Some (mant * pow10 (e - int (length fp))))
                   else None))"

definition py_float_of_str :: "string \<Rightarrow> exn + pyfloat" where
  "py_float_of_str s =
     (let t = py_strip s;
          u = (if CHR ''_'' \<in> set t then filter (\<lambda>c. c \<noteq> CHR ''_'') t else t);
          (neg, body) = split_sign u;
          low = map to_lower body
      in if CHR ''_'' \<in> set t \<and> \<not> underscores_ok CHR ''x'' t then Inl ValueError
         else (case parse_decimal body of
                 Some q \<Rightarrow> Inr (make_float neg q)
               | None \<Rightarrow>
                   if low = ''inf'' \<or> low = ''infinity'' then Inr (Infinity neg)
                   else if low = ''nan'' then Inr NaN
                   else Inl ValueError))"

definition endswith :: "string \<Rightarrow> string \<Rightarrow> bool" where
  "endswith s suffix = (length suffix \<le> length s \<and> drop (length s - length suffix) s = suffix)"

definition py_find :: "string \<Rightarrow> char \<Rightarrow> int" where
  "py_find s c = (if c \<in> set s then int (length (takeWhile (\<lambda>x. x \<noteq> c) s)) else - 1)"

definition decode_ascii_ignore :: "byte list \<Rightarrow> string" where
  "decode_ascii_ignore bs = map (\<lambda>b. char_of (unat b)) (filter (\<lambda>b. b < 0x80) bs)"

definition rstrip_nul :: "string \<Rightarrow> string" where
  "rstrip_nul s = rev (dropWhile (\<lambda>c. c = CHR 0x00) (rev s))"

subsection \<open>The struct module\<close>

text \<open>
  \<^verbatim>\<open>struct.unpack_from(fmt, buffer, offset)\<close> is modelled for the formats of one
  byte-order character (big-endian, network or little-endian) and one fixed-size integer
  code, which covers the descriptor tables of \<^verbatim>\<open>sensor.py\<close>. A negative offset
  counts from the end of the buffer; a buffer too short for the read raises
  \<^verbatim>\<open>struct.error\<close>. Every other format string is outside this model and is reported
  as \<^verbatim>\<open>struct.error\<close> too.
\<close>

definition be_uint :: "byte list \<Rightarrow> int" where
  "be_uint bs = foldl (\<lambda>acc b. 256 * acc + uint b) 0 bs"

definition to_signed :: "nat \<Rightarrow> int \<Rightarrow> int" where
  "to_signed width v = (if 2 ^ (8 * width - 1) \<le> v then v - 2 ^ (8 * width) else v)"

definition struct_code :: "char \<Rightarrow> (nat \<times> bool) option" where
  "struct_code c =
     (if c = CHR ''b'' then Some (1, True) else if c = CHR ''B'' then Some (1, False)
      else if c = CHR ''h'' then Some (2, True) else if c = CHR ''H'' then Some (2, False)
      else if c = CHR ''i'' \<or> c = CHR ''l'' then Some (4, True)
      else if c = CHR ''I'' \<or> c = CHR ''L'' then Some (4, False)
      else if c = CHR ''q'' then Some (8, True) else if c = CHR ''Q'' then Some (8, False)
      else None)"

definition unpack_from :: "string \<Rightarrow> byte list \<Rightarrow> int \<Rightarrow> exn + int list" where
  "unpack_from fmt buffer offset =
     (case fmt of
        [order, code] \<Rightarrow>
          (case struct_code code of
             None \<Rightarrow> Inl StructError
           | Some (width, is_signed) \<Rightarrow>
               if order \<notin> {CHR ''>'', CHR ''!'', CHR ''<''} then Inl StructError
               else
                 let n = int (length buffer);
                     off = (if offset < 0 then offset + n else offset)
                 in if off < 0 \<or> n - off < int width then Inl StructError
                    else
                      let raw = take width (drop (nat off) buffer);
                          v = be_uint (if order = CHR ''<'' then rev raw else raw)
                      in Inr [if is_signed then to_signed width v else v])
      | _ \<Rightarrow> Inl StructError)"

section \<open>entity.py: descriptors and the value decode\<close>

text \<open>
  \<^verbatim>\<open>SajR5MqttEntityDescription\<close>: where a field lies in the register buffer, its
  wire type, the optional scale (\<^verbatim>\<open>float | str | None\<close>) and the optional
  conversion function. A decoded value is \<^verbatim>\<open>int | float | str | None\<close>.
\<close>

datatype pyval = VNone | VInt int | VFloat pyfloat | VStr string

datatype scale = NoScale | FloatScale pyfloat | StrScale string

record SajR5MqttEntityDescription =
  key :: string
  modbus_register_offset :: int
  modbus_register_data_type :: string
  modbus_register_scale :: scale
  value_fn :: "(pyval \<Rightarrow> exn + pyval) option"

datatype log_record = LogError string exn

definition str_of_scale :: "scale \<Rightarrow> string" where
  "str_of_scale sc = (case sc of NoScale \<Rightarrow> ''None'' | FloatScale x \<Rightarrow> float_repr x | StrScale s \<Rightarrow> s)"

definition float_of_scale :: "scale \<Rightarrow> exn + pyfloat" where
  "float_of_scale sc =
     (case sc of NoScale \<Rightarrow> Inl TypeError | FloatScale x \<Rightarrow> Inr x | StrScale s \<Rightarrow> py_float_of_str s)"

definition py_mul_float :: "pyval \<Rightarrow> pyfloat \<Rightarrow> exn + pyfloat" where
  "py_mul_float v x =
     (case v of
        VInt i \<Rightarrow> (case float_of_int i of Inl e \<Rightarrow> Inl e | Inr y \<Rightarrow> Inr (float_mul y x))
      | VFloat y \<Rightarrow> Inr (float_mul y x)
      | VStr _ \<Rightarrow> Inl TypeError
      | VNone \<Rightarrow> Inl TypeError)"

text \<open>
  The raw value of \<^verbatim>\<open>get_entity_description\<close>: a data type ending in \<^verbatim>\<open>s\<close>
  is a text of the length written before the \<^verbatim>\<open>s\<close>, sliced from the payload,
  decoded as ASCII with the other bytes dropped and the trailing NULs stripped; any other
  data type goes to \<^verbatim>\<open>unpack_from\<close>, whose result must be a 1-tuple.
\<close>

definition raw_value :: "byte list \<Rightarrow> SajR5MqttEntityDescription \<Rightarrow> exn + pyval" where
  "raw_value payload description =
     (if endswith (modbus_register_data_type description) ''s'' then
        (case py_int_of_str (filter (\<lambda>c. c \<noteq> CHR ''s'') (modbus_register_data_type description)) of
           Inl e \<Rightarrow> Inl e
         | Inr reg_length \<Rightarrow>
             Inr (VStr (rstrip_nul (decode_ascii_ignore
                    (py_slice payload (modbus_register_offset description)
                       (modbus_register_offset description + reg_length))))))
      else
        (case unpack_from (modbus_register_data_type description) payload
                (modbus_register_offset description) of
           Inl e \<Rightarrow> Inl e
         | Inr [v] \<Rightarrow> Inr (VInt v)
         | Inr _ \<Rightarrow> Inl ValueError))"

text \<open>
  The scale step: \<^verbatim>\<open>digits = max(0, str(scale)[::-1].find("."))\<close>, then
  \<^verbatim>\<open>round(value * float(scale), digits)\<close>, and for a string scale the result is
  formatted with \<^verbatim>\<open>digits\<close> decimals.
\<close>

definition scale_digits :: "scale \<Rightarrow> nat" where
  "scale_digits sc = nat (max 0 (py_find (rev (str_of_scale sc)) CHR ''.''))"

definition apply_scale :: "scale \<Rightarrow> pyval \<Rightarrow> exn + pyval" where
  "apply_scale sc v =
     (case sc of
        NoScale \<Rightarrow> Inr v
      | _ \<Rightarrow>
          let digits = scale_digits sc in
          (case float_of_scale sc of
             Inl e \<Rightarrow> Inl e
           | Inr x \<Rightarrow>
               (case py_mul_float v x of
                  Inl e \<Rightarrow> Inl e
                | Inr p \<Rightarrow>
                    let r = py_round p digits in
                    (case sc of
                       StrScale _ \<Rightarrow> Inr (VStr (format_fixed r digits))
                     | _ \<Rightarrow> Inr (VFloat r)))))"

text \<open>The body of the \<^verbatim>\<open>try\<close> block of \<^verbatim>\<open>get_entity_description\<close>.\<close>

definition decode_try_body :: "byte list \<Rightarrow> SajR5MqttEntityDescription \<Rightarrow> exn + pyval" where
  "decode_try_body payload description =
     (case raw_value payload description of
        Inl e \<Rightarrow> Inl e
      | Inr v \<Rightarrow>
          (case apply_scale (modbus_register_scale description) v of
             Inl e \<Rightarrow> Inl e
           | Inr w \<Rightarrow>
               (case value_fn description of
                  None \<Rightarrow> Inr w
                | Some f \<Rightarrow> f w)))"

text \<open>
  \<^verbatim>\<open>get_entity_description(payload, description)\<close>: \<^verbatim>\<open>None\<close> without a
  payload; \<^verbatim>\<open>except Exception\<close> logs the error and returns \<^verbatim>\<open>None\<close>. The
  result is the value and the records written to the log.
\<close>

definition get_entity_description ::
  "byte list option \<Rightarrow> SajR5MqttEntityDescription \<Rightarrow> pyval \<times> log_record list" where
  "get_entity_description payload description =
     (case payload of
        None \<Rightarrow> (VNone, [])
      | Some p \<Rightarrow>
          (case decode_try_body p description of
             Inl e \<Rightarrow> (VNone, [LogError (key description) e])
           | Inr v \<Rightarrow> (v, [])))"

text \<open>\<^verbatim>\<open>SajR5MqttSensorEntity.native_value\<close> of \<^verbatim>\<open>sensor.py\<close>.\<close>

definition native_value ::
  "byte list option \<Rightarrow> SajR5MqttEntityDescription \<Rightarrow> pyval \<times> log_record list" where
  "native_value coordinator_data entity_description =
     (case coordinator_data of
        None \<Rightarrow> (VNone, [])
      | Some _ \<Rightarrow> get_entity_description coordinator_data entity_description)"

text \<open>
  Descriptors of the tables of \<^verbatim>\<open>sensor.py\<close>. A float literal such as \<^verbatim>\<open>0.1\<close>
  is the double nearest to that decimal. The conversion function of the text fields is
  \<^verbatim>\<open>x.rstrip\<close> of the NUL character, which needs a string.
\<close>

definition float_literal :: "rat \<Rightarrow> pyfloat" where
  "float_literal q = make_float (q < 0) \<bar>q\<bar>"

definition rstrip_value_fn :: "pyval \<Rightarrow> exn + pyval" where
  "rstrip_value_fn x = (case x of VStr s \<Rightarrow> Inr (VStr (rstrip_nul s)) | _ \<Rightarrow> Inl AttributeError)"

definition pv1_voltage :: SajR5MqttEntityDescription where
  "pv1_voltage =
     \<lparr>key = ''pv1_voltage'', modbus_register_offset = 0xE, modbus_register_data_type = ''>H'',
      modbus_register_scale = FloatScale (float_literal (1 / 10)), value_fn = None\<rparr>"

definition inverter_temperature :: SajR5MqttEntityDescription where
  "inverter_temperature =
     \<lparr>key = ''inverter_temperature'', modbus_register_offset = 0x22,
      modbus_register_data_type = ''>h'',
      modbus_register_scale = FloatScale (float_literal (1 / 10)), value_fn = None\<rparr>"

definition serial_number :: SajR5MqttEntityDescription where
  "serial_number =
     \<lparr>key = ''serial_number'', modbus_register_offset = 0x6, modbus_register_data_type = ''20s'',
      modbus_register_scale = NoScale, value_fn = Some rstrip_value_fn\<rparr>"

text \<open>
  The wire types of the specification, read with machine words: the two or four bytes at
  the offset, most significant first, as an unsigned or a two's-complement number.
\<close>

definition wire_u16 :: "byte list \<Rightarrow> nat \<Rightarrow> int" where
  "wire_u16 payload i = uint (word_cat (payload ! i) (payload ! (i + 1)) :: 16 word)"

definition wire_s16 :: "byte list \<Rightarrow> nat \<Rightarrow> int" where
  "wire_s16 payload i = sint (word_cat (payload ! i) (payload ! (i + 1)) :: 16 word)"

definition wire_u32 :: "byte list \<Rightarrow> nat \<Rightarrow> int" where
  "wire_u32 payload i =
     uint (word_cat (word_cat (payload ! i) (payload ! (i + 1)) :: 16 word)
                    (word_cat (payload ! (i + 2)) (payload ! (i + 3)) :: 16 word) :: 32 word)"

definition wire_value :: "string \<Rightarrow> byte list \<Rightarrow> nat \<Rightarrow> int" where
  "wire_value data_type payload i =
     (if data_type = ''>H'' then wire_u16 payload i
      else if data_type = ''>h'' then wire_s16 payload i
      else wire_u32 payload i)"

definition wire_size :: "string \<Rightarrow> nat" where
  "wire_size data_type = (if data_type = ''>I'' then 4 else 2)"

text \<open>
  The number of decimal digits of a scale factor's text, as the specification counts
  them: the characters that follow the decimal point, none when the text has no point.
  \<open>after_point\<close> is the text behind the last point.
\<close>

fun after_point :: "string \<Rightarrow> string option" where
  "after_point [] = None"
| "after_point (c # cs) =
     (case after_point cs of
        Some r \<Rightarrow> Some r
      | None \<Rightarrow> if c = CHR ''.'' then Some cs else None)"

definition decimal_places :: "string \<Rightarrow> nat" where
  "decimal_places text = (case after_point text of None \<Rightarrow> 0 | Some r \<Rightarrow> length r)"

text \<open>The float whose value is exactly the integer \<open>i\<close>.\<close>

definition exact_float :: "int \<Rightarrow> pyfloat" where
  "exact_float i = Finite (i < 0) (of_int \<bar>i\<bar>)"

section \<open>sensor.py: the inverter time sensor\<close>

text \<open>
  \<^verbatim>\<open>datetime(year, month, day, hour, minute, second)\<close> of the standard library
  checks its fields in this order and raises \<^verbatim>\<open>ValueError\<close> at the first one
  out of range; \<^verbatim>\<open>dt.replace(tzinfo=ZoneInfo("UTC"))\<close> attaches the zone.
\<close>

record datetime =
  year :: int
  month :: int
  day :: int
  hour :: int
  minute :: int
  second :: int
  tzinfo :: "string option"

definition is_leap :: "int \<Rightarrow> bool" where
  "is_leap y = (y mod 4 = 0 \<and> (y mod 100 \<noteq> 0 \<or> y mod 400 = 0))"

definition DAYS_IN_MONTH :: "int list" where
  "DAYS_IN_MONTH = [-1, 31, 28, 31, 30, 31, 30, 31, 31, 30, 31, 30, 31]"

definition days_in_month :: "int \<Rightarrow> int \<Rightarrow> int" where
  "days_in_month y m = (if m = 2 \<and> is_leap y then 29 else DAYS_IN_MONTH ! nat m)"

definition py_datetime :: "int \<Rightarrow> int \<Rightarrow> int \<Rightarrow> int \<Rightarrow> int \<Rightarrow> int \<Rightarrow> exn + datetime" where
  "py_datetime y mo d h mi s =
     (if \<not> (1 \<le> y \<and> y \<le> 9999) then Inl ValueError
      else if \<not> (1 \<le> mo \<and> mo \<le> 12) then Inl ValueError
      else if \<not> (1 \<le> d \<and> d \<le> days_in_month y mo) then Inl ValueError
      else if \<not> (0 \<le> h \<and> h \<le> 23) then Inl ValueError
      else if \<not> (0 \<le> mi \<and> mi \<le> 59) then Inl ValueError
      else if \<not> (0 \<le> s \<and> s \<le> 59) then Inl ValueError
      else Inr \<lparr>year = y, month = mo, day = d, hour = h, minute = mi, second = s,
                tzinfo = None\<rparr>)"

text \<open>
  The body of the \<^verbatim>\<open>try\<close> block of
  \<^verbatim>\<open>SajR5MqttInverterTimeSensorEntity.native_value\<close>: the 8 bytes at the
  descriptor's offset, the year from the first two, one byte per remaining field.
\<close>

definition time_try_body :: "byte list \<Rightarrow> int \<Rightarrow> exn + datetime option" where
  "time_try_body data offset =
     (let time_data = py_slice data offset (offset + 8) in
      if length time_data < 8 then Inr None
      else
        let year = (push_bit 8 (uint (time_data ! 0))) OR uint (time_data ! 1);
            month = uint (time_data ! 2);
            day = uint (time_data ! 3);
            hour = uint (time_data ! 4);
            minute = uint (time_data ! 5);
            second = uint (time_data ! 6)
        in case py_datetime year month day hour minute second of
             Inl e \<Rightarrow> Inl e
           | Inr dt \<Rightarrow> Inr (Some (dt\<lparr>tzinfo := Some ''UTC''\<rparr>)))"

text \<open>
  \<^verbatim>\<open>native_value\<close> of the time sensor: no coordinator data gives
  \<^verbatim>\<open>None\<close>; \<^verbatim>\<open>except (ValueError, IndexError)\<close> turns these two exceptions
  into \<^verbatim>\<open>None\<close>, any other exception leaves the property.
\<close>

definition time_native_value :: "byte list option \<Rightarrow> int \<Rightarrow> exn + datetime option" where
  "time_native_value coordinator_data offset =
     (case coordinator_data of
        None \<Rightarrow> Inr None
      | Some data \<Rightarrow>
          (case time_try_body data offset of
             Inl ValueError \<Rightarrow> Inr None
           | Inl IndexError \<Rightarrow> Inr None
           | Inl e \<Rightarrow> Inl e
           | Inr v \<Rightarrow> Inr v))"

text \<open>
  What the specification calls a valid calendar date: a year the calendar type can hold,
  a month of the year, a day of that month (February has 29 days in a leap year), and a
  time of day.
\<close>

definition month_length :: "int \<Rightarrow> int \<Rightarrow> int" where
  "month_length y m =
     (if m \<in> {1, 3, 5, 7, 8, 10, 12} then 31
      else if m \<in> {4, 6, 9, 11} then 30
      else if y mod 400 = 0 \<or> (y mod 4 = 0 \<and> y mod 100 \<noteq> 0) then 29
      else 28)"

definition valid_calendar_date :: "int \<Rightarrow> int \<Rightarrow> int \<Rightarrow> int \<Rightarrow> int \<Rightarrow> int \<Rightarrow> bool" where
  "valid_calendar_date y m d h mi s =
     (y \<in> {1..9999} \<and> m \<in> {1..12} \<and> d \<in> {1..month_length y m}
      \<and> h \<in> {0..23} \<and> mi \<in> {0..59} \<and> s \<in> {0..59})"

section \<open>coordinator.py: the poll coordinators\<close>

text \<open>
  Modelled from the spec: \<^verbatim>\<open>client.py\<close> (\<^verbatim>\<open>SajR5MqttClient\<close>) is not among the
  sources. Section 6 of the specification gives its register access:
  \<^verbatim>\<open>readRegisters(start, count) -> bytes | Fails(Timeout|TransportDown)\<close> and
  \<^verbatim>\<open>writeRegister(register, value) -> u16 | Fails(Timeout|TransportDown)\<close>; the callers
  under \<^verbatim>\<open>src/\<close> also provide for a returned \<^verbatim>\<open>None\<close>. The client is the
  environment of the coordinators: it keeps the calls it received, and the outcome of its
  n-th read and n-th write is given by a script.
\<close>

datatype 'a outcome = Returns 'a | Raises exn

record SajR5MqttClient =
  read_calls :: "(int \<times> int) list"
  write_calls :: "(int \<times> int) list"
  read_script :: "nat \<Rightarrow> byte list option outcome"
  write_script :: "nat \<Rightarrow> int option outcome"

definition read_registers ::
  "SajR5MqttClient \<Rightarrow> int \<Rightarrow> int \<Rightarrow> byte list option outcome \<times> SajR5MqttClient" where
  "read_registers client reg_start reg_count =
     (read_script client (length (read_calls client)),
      client\<lparr>read_calls := read_calls client @ [(reg_start, reg_count)]\<rparr>)"

definition write_register ::
  "SajR5MqttClient \<Rightarrow> int \<Rightarrow> int \<Rightarrow> int option outcome \<times> SajR5MqttClient" where
  "write_register client register val =
     (write_script client (length (write_calls client)),
      client\<lparr>write_calls := write_calls client @ [(register, val)]\<rparr>)"

text \<open>
  The two coordinator classes that \<^verbatim>\<open>coordinator.py\<close> defines, and the state of a
  coordinator: the cached buffer \<^verbatim>\<open>data\<close>, the \<^verbatim>\<open>ready\<close> flag, and the
  \<^verbatim>\<open>last_update_success\<close> flag of Home Assistant's \<^verbatim>\<open>DataUpdateCoordinator\<close>.
\<close>

datatype coordinator_class = SajR5MqttRealtimeDataCoordinator | SajR5MqttInverterDataCoordinator

record SajR5MqttDataCoordinator =
  cls :: coordinator_class
  name :: string
  update_interval :: int
  data :: "byte list option"
  ready :: bool
  last_update_success :: bool

definition DOMAIN :: string where
  "DOMAIN = ''saj_r5_mqtt''"

text \<open>
  \<^verbatim>\<open>__init__\<close> of a coordinator: the scan interval in seconds becomes the update
  interval, there is no data yet and the coordinator is not ready.
\<close>

definition new_coordinator :: "coordinator_class \<Rightarrow> int \<Rightarrow> string \<Rightarrow> SajR5MqttDataCoordinator" where
  "new_coordinator c scan_interval nm =
     \<lparr>cls = c, name = DOMAIN @ ''_'' @ nm @ ''_coordinator'', update_interval = scan_interval,
      data = None, ready = False, last_update_success = True\<rparr>"

definition register_block :: "coordinator_class \<Rightarrow> int \<times> int" where
  "register_block c =
     (case c of
        SajR5MqttRealtimeDataCoordinator \<Rightarrow> (0x0100, 0x38)
      | SajR5MqttInverterDataCoordinator \<Rightarrow> (0x8F00, 0x1D))"

definition async_fetch_data ::
  "SajR5MqttDataCoordinator \<Rightarrow> SajR5MqttClient \<Rightarrow> byte list option outcome \<times> SajR5MqttClient" where
  "async_fetch_data self client =
     (case register_block (cls self) of (reg_start, reg_count) \<Rightarrow>
        read_registers client reg_start reg_count)"

definition async_update_data ::
  "SajR5MqttDataCoordinator \<Rightarrow> SajR5MqttClient \<Rightarrow> byte list option outcome \<times> SajR5MqttClient" where
  "async_update_data self client =
     (if \<not> ready self then (Returns None, client) else async_fetch_data self client)"

text \<open>
  One tick: \<^verbatim>\<open>DataUpdateCoordinator._async_refresh\<close> of Home Assistant, which the
  scheduler and \<^verbatim>\<open>async_refresh\<close> both run. It assigns the result of
  \<^verbatim>\<open>_async_update_data\<close> to \<^verbatim>\<open>data\<close>; an exception leaves \<^verbatim>\<open>data\<close> alone,
  clears \<^verbatim>\<open>last_update_success\<close> and is not raised again, except
  \<^verbatim>\<open>NotImplementedError\<close>.
\<close>

definition async_refresh ::
  "SajR5MqttDataCoordinator \<Rightarrow> SajR5MqttClient \<Rightarrow> (exn + SajR5MqttDataCoordinator) \<times> SajR5MqttClient" where
  "async_refresh self client =
     (case async_update_data self client of
        (Returns v, client') \<Rightarrow> (Inr (self\<lparr>data := v, last_update_success := True\<rparr>), client')
      | (Raises e, client') \<Rightarrow>
          if e = NotImplementedError then (Inl e, client')
          else (Inr (self\<lparr>last_update_success := False\<rparr>), client'))"

fun ticks ::
  "nat \<Rightarrow> SajR5MqttDataCoordinator \<Rightarrow> SajR5MqttClient \<Rightarrow> (exn + SajR5MqttDataCoordinator) \<times> SajR5MqttClient" where
  "ticks 0 self client = (Inr self, client)"
| "ticks (Suc n) self client =
     (case async_refresh self client of
        (Inl e, client') \<Rightarrow> (Inl e, client')
      | (Inr self', client') \<Rightarrow> ticks n self' client')"

text \<open>
  \<^verbatim>\<open>SajR5MqttData\<close>, the runtime data of a config entry, with the fields its
  dataclass declares.
\<close>

record SajR5MqttData =
  mqtt_client :: SajR5MqttClient
  coordinator_realtime_data :: SajR5MqttDataCoordinator
  coordinator_inverter_data :: "SajR5MqttDataCoordinator option"

definition mark_coordinators_ready :: "SajR5MqttData \<Rightarrow> SajR5MqttData" where
  "mark_coordinators_ready self =
     self\<lparr>coordinator_realtime_data := (coordinator_realtime_data self)\<lparr>ready := True\<rparr>,
          coordinator_inverter_data :=
            map_option (\<lambda>c. c\<lparr>ready := True\<rparr>) (coordinator_inverter_data self)\<rparr>"

definition async_refresh_coordinators :: "SajR5MqttData \<Rightarrow> exn + SajR5MqttData" where
  "async_refresh_coordinators self =
     (case async_refresh (coordinator_realtime_data self) (mqtt_client self) of
        (Inl e, _) \<Rightarrow> Inl e
      | (Inr rt, client') \<Rightarrow>
          (case coordinator_inverter_data self of
             None \<Rightarrow> Inr (self\<lparr>mqtt_client := client', coordinator_realtime_data := rt\<rparr>)
           | Some inverter \<Rightarrow>
               (case async_refresh inverter client' of
                  (Inl e, _) \<Rightarrow> Inl e
                | (Inr inverter', client'') \<Rightarrow>
                    Inr (self\<lparr>mqtt_client := client'', coordinator_realtime_data := rt,
                              coordinator_inverter_data := Some inverter'\<rparr>))))"

definition async_first_refresh :: "SajR5MqttData \<Rightarrow> exn + SajR5MqttData" where
  "async_first_refresh self = async_refresh_coordinators (mark_coordinators_ready self)"

section \<open>\<^verbatim>\<open>__init__.py\<close>: setting up a config entry\<close>

text \<open>
  \<^verbatim>\<open>from .coordinator import (...)\<close> binds names that \<^verbatim>\<open>coordinator.py\<close> defines
  and raises \<^verbatim>\<open>ImportError\<close> for any other. A dataclass is called with keyword
  arguments; a keyword that is not one of its fields, or a field left out, raises
  \<^verbatim>\<open>TypeError\<close>.
\<close>

definition coordinator_module :: "string list" where
  "coordinator_module =
     [''annotations'', ''ABC'', ''abstractmethod'', ''dataclass'', ''timedelta'',
      ''HomeAssistant'', ''DataUpdateCoordinator'', ''SajR5MqttClient'', ''DOMAIN'', ''LOGGER'',
      ''log_hex'', ''SajR5MqttData'', ''SajR5MqttDataCoordinator'',
      ''SajR5MqttRealtimeDataCoordinator'', ''SajR5MqttInverterDataCoordinator'']"

definition init_imports_from_coordinator :: "string list" where
  "init_imports_from_coordinator =
     [''SajR5MqttConfigDataCoordinator'', ''SajR5MqttData'',
      ''SajR5MqttInverterDataCoordinator'', ''SajR5MqttRealtimeDataCoordinator'']"

definition import_from :: "string list \<Rightarrow> string list \<Rightarrow> exn + unit" where
  "import_from namespace names =
     (if list_all (\<lambda>n. n \<in> set namespace) names then Inr () else Inl ImportError)"

definition SajR5MqttData_fields :: "string list" where
  "SajR5MqttData_fields =
     [''mqtt_client'', ''coordinator_realtime_data'', ''coordinator_inverter_data'']"

definition dataclass_init :: "string list \<Rightarrow> string list \<Rightarrow> exn + unit" where
  "dataclass_init field_names keywords =
     (if \<not> list_all (\<lambda>k. k \<in> set field_names) keywords then Inl TypeError
      else if \<not> list_all (\<lambda>f. f \<in> set keywords) field_names then Inl TypeError
      else Inr ())"

definition CONF_SCAN_INTERVAL_REALTIME_DATA :: string where
  "CONF_SCAN_INTERVAL_REALTIME_DATA = ''scan_interval_realtime_data''"

definition CONF_SCAN_INTERVAL_INVERTER_DATA :: string where
  "CONF_SCAN_INTERVAL_INVERTER_DATA = ''scan_interval_inverter_data''"

definition CONF_SCAN_INTERVAL_CONFIG_DATA :: string where
  "CONF_SCAN_INTERVAL_CONFIG_DATA = ''scan_interval_config_data''"

text \<open>
  \<^verbatim>\<open>entry.options.get(name, None)\<close> followed by
  \<^verbatim>\<open>timedelta(seconds=interval) if interval else None\<close>: an absent or zero interval
  disables the coordinator.
\<close>

definition optional_interval :: "(string \<rightharpoonup> int) \<Rightarrow> string \<Rightarrow> int option" where
  "optional_interval options option_name =
     (case options option_name of None \<Rightarrow> None | Some i \<Rightarrow> if i \<noteq> 0 then Some i else None)"

text \<open>
  \<^verbatim>\<open>async_setup_entry\<close> up to the first refresh. Its inputs are whether the MQTT
  integration is available, the entry's options, whether MQTT was marked ready before
  and the broker's birth topic, and the connected client. The config data coordinator
  is built from the name \<^verbatim>\<open>SajR5MqttConfigDataCoordinator\<close> that the module
  imported, and the runtime data is built with the four keywords of the source.
\<close>

definition async_setup_entry ::
  "bool \<Rightarrow> (string \<rightharpoonup> int) \<Rightarrow> bool \<Rightarrow> string option \<Rightarrow> SajR5MqttClient \<Rightarrow> exn + SajR5MqttData" where
  "async_setup_entry mqtt_available options mqtt_ready birth_topic client =
     (if \<not> mqtt_available then Inl ConfigEntryNotReady
      else
        (case options CONF_SCAN_INTERVAL_REALTIME_DATA of
           None \<Rightarrow> Inl KeyError
         | Some scan_interval_realtime_data \<Rightarrow>
             let scan_interval_inverter_data = optional_interval options CONF_SCAN_INTERVAL_INVERTER_DATA;
                 scan_interval_config_data = optional_interval options CONF_SCAN_INTERVAL_CONFIG_DATA;
                 realtime = new_coordinator SajR5MqttRealtimeDataCoordinator
                              scan_interval_realtime_data ''realtime_data'';
                 inverter = map_option
                              (\<lambda>i. new_coordinator SajR5MqttInverterDataCoordinator i ''inverter_data'')
                              scan_interval_inverter_data
             in
             (case (if scan_interval_config_data = None then Inr ()
                    else import_from coordinator_module [''SajR5MqttConfigDataCoordinator'']) of
                Inl e \<Rightarrow> Inl e
              | Inr _ \<Rightarrow>
                  (case dataclass_init SajR5MqttData_fields
                          [''mqtt_client'', ''coordinator_realtime_data'',
                           ''coordinator_inverter_data'', ''coordinator_config_data''] of
                     Inl e \<Rightarrow> Inl e
                   | Inr _ \<Rightarrow>
                       let runtime_data = \<lparr>mqtt_client = client,
                                            coordinator_realtime_data = realtime,
                                            coordinator_inverter_data = inverter\<rparr>
                       in if mqtt_ready \<or> birth_topic = None then async_first_refresh runtime_data
                          else Inr runtime_data))))"

text \<open>Loading the package runs the imports of \<^verbatim>\<open>__init__.py\<close> before any call.\<close>

definition load_and_setup_entry ::
  "bool \<Rightarrow> (string \<rightharpoonup> int) \<Rightarrow> bool \<Rightarrow> string option \<Rightarrow> SajR5MqttClient \<Rightarrow> exn + SajR5MqttData" where
  "load_and_setup_entry mqtt_available options mqtt_ready birth_topic client =
     (case import_from coordinator_module init_imports_from_coordinator of
        Inl e \<Rightarrow> Inl e
      | Inr _ \<Rightarrow> async_setup_entry mqtt_available options mqtt_ready birth_topic client)"

section \<open>number.py: the power limit\<close>

record SajR5MqttNumberEntityDescription =
  native_min_value :: int
  native_max_value :: int
  native_step :: int
  modbus_register :: int
  value_scale :: pyfloat

definition power_limit :: SajR5MqttNumberEntityDescription where
  "power_limit = \<lparr>native_min_value = 0, native_max_value = 110, native_step = 1,
                   modbus_register = 0x801F, value_scale = Finite False 10\<rparr>"

definition NUMBER_TYPES :: "SajR5MqttNumberEntityDescription list" where
  "NUMBER_TYPES = [power_limit]"

text \<open>
  \<^verbatim>\<open>int(x)\<close> of a float truncates toward zero; NaN raises \<^verbatim>\<open>ValueError\<close> and an
  infinity \<^verbatim>\<open>OverflowError\<close>.
\<close>

definition py_int_of_float :: "pyfloat \<Rightarrow> exn + int" where
  "py_int_of_float x =
     (case x of
        Finite neg m \<Rightarrow> Inr ((if neg then - 1 else 1) * \<lfloor>m\<rfloor>)
      | Infinity _ \<Rightarrow> Inl OverflowError
      | NaN \<Rightarrow> Inl ValueError)"

definition async_set_native_value ::
  "SajR5MqttNumberEntityDescription \<Rightarrow> SajR5MqttClient \<Rightarrow> pyfloat \<Rightarrow> (exn + unit) \<times> SajR5MqttClient" where
  "async_set_native_value entity_description client v =
     (case py_int_of_float (float_mul v (value_scale entity_description)) of
        Inl e \<Rightarrow> (Inl e, client)
      | Inr scaled_value \<Rightarrow>
          (case write_register client (modbus_register entity_description) scaled_value of
             (Raises e, client') \<Rightarrow> (Inl e, client')
           | (Returns None, client') \<Rightarrow> (Inl HomeAssistantError, client')
           | (Returns (Some _), client') \<Rightarrow> (Inr (), client')))"

section \<open>The transport bridge\<close>

text \<open>
  Modelled from the spec: the transport bridge (\<^verbatim>\<open>client.py\<close>) is not among the
  sources. Section 4.2 of the specification: \<^verbatim>\<open>request\<close> publishes the frame and
  suspends the caller until a matching response arrives or the deadline elapses; while
  one request is outstanding, all other callers are queued and served strictly in arrival
  order. A response matches iff its function code equals the request's and, for writes,
  its echoed register equals the request's register; other messages are discarded. A lost
  connection fails every waiter with \<open>Transport_Down\<close>; \<^verbatim>\<open>disconnect\<close> fails the
  waiter in flight with \<open>Cancelled\<close> and discards the queued requests. The concurrent
  callers are interleaved: the bridge takes one input at a time, and \<open>sent\<close> records in
  order what it publishes and which caller it resumes with what.
\<close>

datatype function_code = Read | Write

record request_frame =
  function_code :: function_code
  register_start :: "16 word"
  count_or_value :: "16 word"

record response_frame =
  response_function_code :: function_code
  response_register :: "16 word"
  response_payload :: "byte list"

datatype failure = Timeout | Transport_Down | Cancelled

type_synonym caller = nat

datatype bridge_input =
    Request caller request_frame
  | Message response_frame
  | Deadline
  | Connection_Lost
  | Disconnect

datatype bridge_output =
    Publish caller request_frame
  | Resolve caller "failure + response_frame"

record bridge =
  in_flight :: "(caller \<times> request_frame) option"
  waiting :: "(caller \<times> request_frame) list"
  sent :: "bridge_output list"

definition bridge_init :: bridge where
  "bridge_init = \<lparr>in_flight = None, waiting = [], sent = []\<rparr>"

definition matches :: "request_frame \<Rightarrow> response_frame \<Rightarrow> bool" where
  "matches req rsp =
     (response_function_code rsp = function_code req
      \<and> (if function_code req = Write then response_register rsp = register_start req else True))"

definition serve_next :: "bridge \<Rightarrow> bridge" where
  "serve_next b =
     (case waiting b of
        [] \<Rightarrow> b\<lparr>in_flight := None\<rparr>
      | (c, f) # rest \<Rightarrow>
          b\<lparr>in_flight := Some (c, f), waiting := rest, sent := sent b @ [Publish c f]\<rparr>)"

definition resolve :: "caller \<Rightarrow> failure + response_frame \<Rightarrow> bridge \<Rightarrow> bridge" where
  "resolve c r b = b\<lparr>sent := sent b @ [Resolve c r]\<rparr>"

fun bridge_step :: "bridge \<Rightarrow> bridge_input \<Rightarrow> bridge" where
  "bridge_step b (Request c f) =
     (case in_flight b of
        None \<Rightarrow> b\<lparr>in_flight := Some (c, f), sent := sent b @ [Publish c f]\<rparr>
      | Some _ \<Rightarrow> b\<lparr>waiting := waiting b @ [(c, f)]\<rparr>)"
| "bridge_step b (Message m) =
     (case in_flight b of
        None \<Rightarrow> b
      | Some (c, f) \<Rightarrow> if matches f m then serve_next (resolve c (Inr m) b) else b)"
| "bridge_step b Deadline =
     (case in_flight b of
        None \<Rightarrow> b
      | Some (c, f) \<Rightarrow> serve_next (resolve c (Inl Timeout) b))"
| "bridge_step b Connection_Lost =
     (case in_flight b of
        None \<Rightarrow> b
      | Some (c, f) \<Rightarrow>
          b\<lparr>in_flight := None, waiting := [],
            sent := sent b @ Resolve c (Inl Transport_Down)
                      # map (\<lambda>(c', _). Resolve c' (Inl Transport_Down)) (waiting b)\<rparr>)"
| "bridge_step b Disconnect =
     (case in_flight b of
        None \<Rightarrow> b\<lparr>waiting := []\<rparr>
      | Some (c, f) \<Rightarrow>
          b\<lparr>in_flight := None, waiting := [], sent := sent b @ [Resolve c (Inl Cancelled)]\<rparr>)"

definition bridge_run :: "bridge_input list \<Rightarrow> bridge" where
  "bridge_run inputs = foldl bridge_step bridge_init inputs"

text \<open>
  Reading the record of what was sent: \<open>outstanding\<close> follows which published request
  has not resolved yet, and is \<open>None\<close> as soon as a request is published while another
  one is still outstanding.
\<close>

fun outstanding_step :: "caller option option \<Rightarrow> bridge_output \<Rightarrow> caller option option" where
  "outstanding_step None _ = None"
| "outstanding_step (Some None) (Publish c _) = Some (Some c)"
| "outstanding_step (Some (Some _)) (Publish _ _) = None"
| "outstanding_step (Some None) (Resolve _ _) = Some None"
| "outstanding_step (Some (Some c)) (Resolve c' _) = (if c' = c then Some None else Some (Some c))"

definition outstanding :: "bridge_output list \<Rightarrow> caller option option" where
  "outstanding outputs = foldl outstanding_step (Some None) outputs"

definition serialized :: "bridge_output list \<Rightarrow> bool" where
  "serialized outputs = (outstanding outputs \<noteq> None)"

text \<open>
  The invariant of the bridge: what was sent is serialized so far, and the request it
  leaves outstanding is the one in flight.
\<close>

definition bridge_inv :: "bridge \<Rightarrow> bool" where
  "bridge_inv b = (outstanding (sent b) = Some (map_option fst (in_flight b)))"

section \<open>Properties of the float operations\<close>

text \<open>Integers below \<open>2 ^ 53\<close> are doubles: rounding leaves them as they are.\<close>

lemma bit_length_le: "n < 2 ^ k \<Longrightarrow> bit_length n \<le> k"
proof (induction k arbitrary: n)
  case 0
  then show ?case by (simp add: bit_length.simps)
next
  case (Suc k)
  show ?case
  proof (cases "n = 0")
    case True
    then show ?thesis by (simp add: bit_length.simps)
  next
    case False
    from Suc.prems have "n div 2 < 2 ^ k" by simp
    then have "bit_length (n div 2) \<le> k" by (rule Suc.IH)
    with False show ?thesis by (subst bit_length.simps) simp
  qed
qed

lemma bit_length_pos: "0 < n \<Longrightarrow> 0 < bit_length n"
  by (subst bit_length.simps) simp

lemma round_half_even_of_int: "round_half_even (of_int z) = z"
  by (simp add: round_half_even_def)

lemma round_to_double_of_nat:
  assumes "n < 2 ^ 53"
  shows "round_to_double (of_nat n) = Some (of_nat n)"
proof (cases "n = 0")
  case True
  then show ?thesis by (simp add: round_to_double_def)
next
  case False
  define e where "e = int (bit_length n) - 1"
  have e0: "0 \<le> e" using bit_length_pos [of n] False by (simp add: e_def)
  have e52: "e \<le> 52" using bit_length_le [OF assms] by (simp add: e_def)
  have q1: "(1::rat) \<le> of_nat n" using False by simp
  have flog: "floor_log2 (of_nat n) = e"
    using q1 by (simp add: floor_log2_def e_def)
  have mx: "max e (- 1022) = e" using e0 by simp
  define k where "k = nat (52 - e)"
  have ulp: "pow2 (e - 52) = 1 / 2 ^ k"
  proof (cases "e = 52")
    case True
    then show ?thesis by (simp add: pow2_def k_def)
  next
    case False
    with e52 have "e - 52 < 0" by simp
    then show ?thesis by (simp add: pow2_def k_def)
  qed
  have quot: "(of_nat n :: rat) / (1 / 2 ^ k) = of_int (int n * 2 ^ k)"
    by simp
  have r: "of_int (round_half_even (of_nat n / pow2 (e - 52))) * pow2 (e - 52) = (of_nat n :: rat)"
    unfolding ulp quot round_half_even_of_int by simp
  have "(of_nat n :: rat) < 2 ^ 53" using assms
    by (metis of_nat_less_iff of_nat_numeral of_nat_power)
  also have "\<dots> < 2 ^ 1024" by simp
  finally have small: "\<not> pow2 1024 \<le> (of_nat n :: rat)" by (simp add: pow2_def)
  show ?thesis
    unfolding round_to_double_def flog mx Let_def r using False small by simp
qed

lemma float_mul_small_nat:
  assumes "a * b < 2 ^ 53"
  shows "float_mul (Finite False (of_nat a)) (Finite False (of_nat b)) = Finite False (of_nat (a * b))"
  using round_to_double_of_nat [OF assms] by (simp add: make_float_def)

section \<open>Properties of the inverter time sensor\<close>

lemma days_in_month_eq:
  assumes "1 \<le> m" "m \<le> 12"
  shows "days_in_month y m = month_length y m"
proof -
  from assms have "m = 1 \<or> m = 2 \<or> m = 3 \<or> m = 4 \<or> m = 5 \<or> m = 6 \<or> m = 7 \<or> m = 8
      \<or> m = 9 \<or> m = 10 \<or> m = 11 \<or> m = 12"
    by arith
  then show ?thesis
    by (auto simp: days_in_month_def month_length_def is_leap_def DAYS_IN_MONTH_def)
qed

lemma py_datetime_invalid:
  assumes "\<not> valid_calendar_date y m d h mi s"
  shows "py_datetime y m d h mi s = Inl ValueError"
proof (cases "1 \<le> m \<and> m \<le> 12")
  case True
  then have "days_in_month y m = month_length y m"
    by (simp add: days_in_month_eq)
  with assms True show ?thesis
    by (auto simp: py_datetime_def valid_calendar_date_def)
next
  case False
  then show ?thesis by (auto simp: py_datetime_def)
qed

lemma py_datetime_only_ValueError: "py_datetime y m d h mi s = Inl e \<Longrightarrow> e = ValueError"
  by (auto simp: py_datetime_def split: if_splits)

text \<open>
  Claim C6. Whenever the 8-byte span at the descriptor's offset does not hold a valid
  calendar date in its year, month, day, hour, minute and second bytes, the time sensor
  returns \<^verbatim>\<open>None\<close>: the result is a returned value, not a raised exception.
\<close>

theorem C6_invalid_timestamp_is_null:
  assumes span: "py_slice payload offset (offset + 8) = [yh, yl, mo, d, h, mi, s, z]"
    and invalid: "\<not> valid_calendar_date ((push_bit 8 (uint yh)) OR uint yl) (uint mo)
                      (uint d) (uint h) (uint mi) (uint s)"
  shows "time_native_value (Some payload) offset = Inr None"
proof -
  have "py_datetime ((push_bit 8 (uint yh)) OR uint yl) (uint mo) (uint d) (uint h)
          (uint mi) (uint s) = Inl ValueError"
    using invalid by (rule py_datetime_invalid)
  then have "time_try_body payload offset = Inl ValueError"
    by (simp add: time_try_body_def span)
  then show ?thesis
    by (simp add: time_native_value_def)
qed

theorem C6_invalid_timestamp_is_null_witness:
  "py_slice [0x07, 0xE8, 13, 1, 0, 0, 0, 0 :: byte] 0 (0 + 8) = [0x07, 0xE8, 13, 1, 0, 0, 0, 0]
   \<and> \<not> valid_calendar_date ((push_bit 8 (uint (0x07 :: byte))) OR uint (0xE8 :: byte))
         (uint (13 :: byte)) (uint (1 :: byte)) (uint (0 :: byte)) (uint (0 :: byte))
         (uint (0 :: byte))
   \<and> time_native_value (Some [0x07, 0xE8, 13, 1, 0, 0, 0, 0]) 0 = Inr None"
proof -
  have span: "py_slice [0x07, 0xE8, 13, 1, 0, 0, 0, 0 :: byte] 0 (0 + 8)
                = [0x07, 0xE8, 13, 1, 0, 0, 0, 0]"
    by (simp add: py_slice_def Let_def)
  have invalid: "\<not> valid_calendar_date ((push_bit 8 (uint (0x07 :: byte))) OR uint (0xE8 :: byte))
         (uint (13 :: byte)) (uint (1 :: byte)) (uint (0 :: byte)) (uint (0 :: byte))
         (uint (0 :: byte))"
    by (simp add: valid_calendar_date_def)
  from C6_invalid_timestamp_is_null [OF span invalid] span invalid show ?thesis
    by blast
qed

section \<open>Properties of the value decode\<close>

lemma unpack_from_short_buffer:
  assumes "dt \<in> {''>H'', ''>h'', ''>I''}" and "length p < i + wire_size dt"
  shows "unpack_from dt p (int i) = Inl StructError"
  using assms by (auto simp: unpack_from_def struct_code_def wire_size_def)

lemma decode_raises_on_short_buffer:
  assumes "modbus_register_data_type d \<in> {''>H'', ''>h'', ''>I''}"
    and "modbus_register_offset d = int i"
    and "length p < i + wire_size (modbus_register_data_type d)"
  shows "decode_try_body p d = Inl StructError"
proof -
  have "\<not> endswith (modbus_register_data_type d) ''s''"
    using assms(1) by (auto simp: endswith_def)
  moreover have "unpack_from (modbus_register_data_type d) p (int i) = Inl StructError"
    using assms(1,3) by (rule unpack_from_short_buffer)
  ultimately show ?thesis
    by (simp add: decode_try_body_def raw_value_def assms(2))
qed

lemma decode_raises_with_value_fn:
  assumes "raw_value p d = Inr r"
    and "apply_scale (modbus_register_scale d) r = Inr w"
    and "value_fn d = Some f"
    and "f w = Inl e"
  shows "decode_try_body p d = Inl e"
  using assms by (simp add: decode_try_body_def)

text \<open>
  Claim C7. The value decode always returns. Without a buffer it returns \<^verbatim>\<open>None\<close>
  and logs nothing. Whenever the decode raises an exception it returns \<^verbatim>\<open>None\<close> and
  writes one error record to the log; in particular when the buffer is too short for a
  numeric field at the descriptor's offset, and when the conversion function rejects the
  value.
\<close>

theorem C7_decode_never_raises:
  "(payload = None \<longrightarrow> native_value payload d = (VNone, []))
   \<and> (\<forall>p e. payload = Some p \<longrightarrow> decode_try_body p d = Inl e \<longrightarrow>
          native_value payload d = (VNone, [LogError (key d) e]))
   \<and> (\<forall>p i. payload = Some p \<longrightarrow> modbus_register_data_type d \<in> {''>H'', ''>h'', ''>I''} \<longrightarrow>
          modbus_register_offset d = int i \<longrightarrow>
          length p < i + wire_size (modbus_register_data_type d) \<longrightarrow>
          native_value payload d = (VNone, [LogError (key d) StructError]))
   \<and> (\<forall>p r w f e. payload = Some p \<longrightarrow> raw_value p d = Inr r \<longrightarrow>
          apply_scale (modbus_register_scale d) r = Inr w \<longrightarrow> value_fn d = Some f \<longrightarrow>
          f w = Inl e \<longrightarrow> native_value payload d = (VNone, [LogError (key d) e]))"
proof -
  have absent: "payload = None \<longrightarrow> native_value payload d = (VNone, [])"
    by (simp add: native_value_def)
  have caught: "\<And>p e. payload = Some p \<Longrightarrow> decode_try_body p d = Inl e \<Longrightarrow>
      native_value payload d = (VNone, [LogError (key d) e])"
    by (simp add: native_value_def get_entity_description_def)
  have short: "\<And>p i. payload = Some p \<Longrightarrow>
      modbus_register_data_type d \<in> {''>H'', ''>h'', ''>I''} \<Longrightarrow>
      modbus_register_offset d = int i \<Longrightarrow>
      length p < i + wire_size (modbus_register_data_type d) \<Longrightarrow>
      native_value payload d = (VNone, [LogError (key d) StructError])"
    by (intro caught decode_raises_on_short_buffer)
  have rejected: "\<And>p r w f e. payload = Some p \<Longrightarrow> raw_value p d = Inr r \<Longrightarrow>
      apply_scale (modbus_register_scale d) r = Inr w \<Longrightarrow> value_fn d = Some f \<Longrightarrow>
      f w = Inl e \<Longrightarrow> native_value payload d = (VNone, [LogError (key d) e])"
    by (intro caught decode_raises_with_value_fn)
  from absent caught short rejected show ?thesis by blast
qed

theorem C7_decode_never_raises_witness:
  "native_value None pv1_voltage = (VNone, [])
   \<and> decode_try_body [0x00, 0x02, 0x00] pv1_voltage = Inl StructError
   \<and> native_value (Some [0x00, 0x02, 0x00]) pv1_voltage
       = (VNone, [LogError ''pv1_voltage'' StructError])
   \<and> native_value (Some [0x00, 0x09])
       \<lparr>key = ''serial_number'', modbus_register_offset = 0, modbus_register_data_type = ''>H'',
        modbus_register_scale = NoScale, value_fn = Some rstrip_value_fn\<rparr>
     = (VNone, [LogError ''serial_number'' AttributeError])"
proof -
  let ?d2 = "\<lparr>key = ''serial_number'', modbus_register_offset = 0, modbus_register_data_type = ''>H'',
        modbus_register_scale = NoScale, value_fn = Some rstrip_value_fn\<rparr>"
  have dt: "modbus_register_data_type pv1_voltage \<in> {''>H'', ''>h'', ''>I''}"
    by (simp add: pv1_voltage_def)
  have off: "modbus_register_offset pv1_voltage = int 14"
    by (simp add: pv1_voltage_def)
  have len: "length [0x00, 0x02, 0x00 :: byte] < 14 + wire_size (modbus_register_data_type pv1_voltage)"
    by (simp add: pv1_voltage_def wire_size_def)
  have k: "key pv1_voltage = ''pv1_voltage''"
    by (simp add: pv1_voltage_def)
  have short: "decode_try_body [0x00, 0x02, 0x00] pv1_voltage = Inl StructError"
    using dt off len by (rule decode_raises_on_short_buffer)
  have raw: "raw_value [0x00, 0x09] ?d2 = Inr (VInt 9)"
    by (simp add: raw_value_def endswith_def unpack_from_def struct_code_def be_uint_def)
  have sc: "apply_scale (modbus_register_scale ?d2) (VInt 9) = Inr (VInt 9)"
    by (simp add: apply_scale_def)
  have fn: "value_fn ?d2 = Some rstrip_value_fn" by simp
  have rej: "rstrip_value_fn (VInt 9) = Inl AttributeError"
    by (simp add: rstrip_value_fn_def)
  note c7a = C7_decode_never_raises [of None pv1_voltage]
  note c7b = C7_decode_never_raises [of "Some [0x00, 0x02, 0x00]" pv1_voltage]
  note c7c = C7_decode_never_raises [of "Some [0x00, 0x09]" ?d2]
  have a: "native_value None pv1_voltage = (VNone, [])"
    using c7a by blast
  from c7b have "native_value (Some [0x00, 0x02, 0x00]) pv1_voltage
                   = (VNone, [LogError (key pv1_voltage) StructError])"
    using dt off len by blast
  then have b: "native_value (Some [0x00, 0x02, 0x00]) pv1_voltage
                  = (VNone, [LogError ''pv1_voltage'' StructError])"
    by (simp only: k)
  from c7c have "native_value (Some [0x00, 0x09]) ?d2 = (VNone, [LogError (key ?d2) AttributeError])"
    using raw sc fn rej by blast
  then have c: "native_value (Some [0x00, 0x09]) ?d2
                  = (VNone, [LogError ''serial_number'' AttributeError])"
    by simp
  from a short b c show ?thesis by blast
qed

subsection \<open>Reading the wire types\<close>

lemma uint_byte_bound: "uint (a :: byte) < 256"
  using uint_lt2p [of a] by simp
lemma uint_ucast_byte16: "uint (ucast (a :: byte) :: 16 word) = uint a"
  by (simp add: uint_up_ucast is_up)
lemma uint_cat16: "uint (word_cat (a :: byte) (b :: byte) :: 16 word) = 256 * uint a + uint b"
proof -
  have "uint a < 256" "uint b < 256" "0 \<le> uint a" "0 \<le> uint b"
    by (simp_all add: uint_byte_bound)
  then show ?thesis
    by (simp add: word_cat_eq uint_word_ariths push_bit_eq_mult uint_ucast_byte16)
qed
lemma uint_cat32: "uint (word_cat (a :: 16 word) (b :: 16 word) :: 32 word) = 65536 * uint a + uint b"
proof -
  have "uint a < 65536" "uint b < 65536" "0 \<le> uint a" "0 \<le> uint b"
    using uint_lt2p [of a] uint_lt2p [of b] by simp_all
  then show ?thesis
    by (simp add: word_cat_eq uint_word_ariths push_bit_eq_mult uint_up_ucast is_up)
qed
lemma sint16: "sint (w :: 16 word) = (if 32768 \<le> uint w then uint w - 65536 else uint w)"
proof -
  have b: "0 \<le> uint w" "uint w < 65536"
    using uint_lt2p [of w] by simp_all
  have s: "sint w = (uint w + 32768) mod 65536 - 32768"
    by (simp add: sint_uint signed_take_bit_eq_take_bit_shift take_bit_eq_mod)
  show ?thesis
  proof (cases "32768 \<le> uint w")
    case True
    have "uint w + 32768 = (uint w - 32768) + 65536"
      by arith
    then have "(uint w + 32768) mod 65536 = ((uint w - 32768) + 65536) mod 65536"
      by (rule arg_cong)
    also have "\<dots> = (uint w - 32768) mod 65536"
      by (rule mod_add_self2)
    also have "\<dots> = uint w - 32768"
      using True b by (intro mod_pos_pos_trivial) simp_all
    finally show ?thesis using True s by simp
  next
    case False
    then have "(uint w + 32768) mod 65536 = uint w + 32768"
      using b by (intro mod_pos_pos_trivial) simp_all
    with False s show ?thesis by simp
  qed
qed

lemma take2_drop:
  assumes "i + 2 \<le> length p"
  shows "take 2 (drop i p) = [p ! i, p ! (i + 1)]"
proof -
  have "drop i p = p ! i # drop (Suc i) p"
    using assms by (simp add: Cons_nth_drop_Suc)
  moreover have "drop (Suc i) p = p ! Suc i # drop (Suc (Suc i)) p"
    using assms by (simp add: Cons_nth_drop_Suc)
  ultimately show ?thesis by (simp add: numeral_2_eq_2)
qed

lemma take4_drop:
  assumes "i + 4 \<le> length p"
  shows "take 4 (drop i p) = [p ! i, p ! (i + 1), p ! (i + 2), p ! (i + 3)]"
proof -
  have "drop i p = p ! i # drop (Suc i) p"
    using assms by (simp add: Cons_nth_drop_Suc)
  moreover have "drop (Suc i) p = p ! Suc i # drop (Suc (Suc i)) p"
    using assms by (simp add: Cons_nth_drop_Suc)
  moreover have "drop (Suc (Suc i)) p = p ! Suc (Suc i) # drop (Suc (Suc (Suc i))) p"
    using assms by (simp add: Cons_nth_drop_Suc)
  moreover have "drop (Suc (Suc (Suc i))) p = p ! Suc (Suc (Suc i)) # drop (Suc (Suc (Suc (Suc i)))) p"
    using assms by (simp add: Cons_nth_drop_Suc)
  ultimately show ?thesis by (simp add: eval_nat_numeral)
qed

lemma unpack_from_u16:
  assumes "i + 2 \<le> length p"
  shows "unpack_from ''>H'' p (int i) = Inr [wire_u16 p i]"
  using assms
  by (simp add: unpack_from_def struct_code_def take2_drop be_uint_def wire_u16_def uint_cat16)

lemma unpack_from_s16:
  assumes "i + 2 \<le> length p"
  shows "unpack_from ''>h'' p (int i) = Inr [wire_s16 p i]"
  using assms
  by (simp add: unpack_from_def struct_code_def take2_drop be_uint_def wire_s16_def sint16
      uint_cat16 to_signed_def)

lemma unpack_from_u32:
  assumes "i + 4 \<le> length p"
  shows "unpack_from ''>I'' p (int i) = Inr [wire_u32 p i]"
  using assms
  by (simp add: unpack_from_def struct_code_def take4_drop be_uint_def wire_u32_def uint_cat32
      uint_cat16)

lemma unpack_from_wire:
  assumes "dt \<in> {''>H'', ''>h'', ''>I''}" and "i + wire_size dt \<le> length p"
  shows "unpack_from dt p (int i) = Inr [wire_value dt p i]"
  using assms
  by (auto simp: wire_size_def wire_value_def unpack_from_u16 unpack_from_s16 unpack_from_u32)


lemma float_of_int_exact:
  assumes "\<bar>i\<bar> < 2 ^ 53"
  shows "float_of_int i = Inr (exact_float i)"
proof -
  have "nat \<bar>i\<bar> < 2 ^ 53" using assms by (simp add: nat_less_iff)
  then have "round_to_double (of_nat (nat \<bar>i\<bar>)) = Some (of_nat (nat \<bar>i\<bar>))"
    by (rule round_to_double_of_nat)
  moreover have "(of_nat (nat \<bar>i\<bar>) :: rat) = of_int \<bar>i\<bar>" by simp
  ultimately show ?thesis by (simp add: float_of_int_def exact_float_def)
qed

subsection \<open>The digits of a scale\<close>

lemma after_point_rev:
  "after_point t =
     (if CHR ''.'' \<in> set t then Some (rev (takeWhile (\<lambda>c. c \<noteq> CHR ''.'') (rev t))) else None)"
proof (induction t)
  case Nil
  then show ?case by simp
next
  case (Cons c cs)
  show ?case
  proof (cases "CHR ''.'' \<in> set cs")
    case True
    then have "takeWhile (\<lambda>c. c \<noteq> CHR ''.'') (rev cs @ [c]) = takeWhile (\<lambda>c. c \<noteq> CHR ''.'') (rev cs)"
      by (simp add: takeWhile_append1)
    with True Cons show ?thesis by simp
  next
    case False
    then have all: "\<forall>x\<in>set (rev cs). x \<noteq> CHR ''.''"
      by auto
    have tw: "takeWhile (\<lambda>c. c \<noteq> CHR ''.'') (rev cs @ [c])
                = rev cs @ takeWhile (\<lambda>c. c \<noteq> CHR ''.'') [c]"
      using all by (intro takeWhile_append2) blast
    show ?thesis
    proof (cases "c = CHR ''.''")
      case True
      with False Cons tw show ?thesis by simp
    next
      case c: False
      with False Cons show ?thesis by simp
    qed
  qed
qed

lemma scale_digits_decimal_places: "scale_digits sc = decimal_places (str_of_scale sc)"
  by (simp add: scale_digits_def decimal_places_def py_find_def after_point_rev)

subsection \<open>A float scale\<close>

lemma endswith_s_numeric:
  assumes "dt \<in> {''>H'', ''>h'', ''>I''}"
  shows "\<not> endswith dt ''s''"
  using assms by (auto simp: endswith_def)

lemma raw_value_numeric:
  assumes "modbus_register_data_type d \<in> {''>H'', ''>h'', ''>I''}"
    and "modbus_register_offset d = int i"
    and "i + wire_size (modbus_register_data_type d) \<le> length payload"
  shows "raw_value payload d = Inr (VInt (wire_value (modbus_register_data_type d) payload i))"
  using assms unpack_from_wire [OF assms(1) assms(3)] endswith_s_numeric [OF assms(1)]
  by (simp add: raw_value_def)


subsection \<open>Evaluating the float operations\<close>

lemma floor_rat_numeral_div: "\<lfloor>(numeral a / numeral b :: rat)\<rfloor> = numeral a div numeral b"
  by (metis floor_divide_of_int_eq of_int_numeral)

lemmas float_eval =
  round_to_double_def floor_log2_def ceil_log10_def pow2_def pow10_def round_half_even_def
  make_float_def roundtrips_def bit_length.simps dec_length.simps str_nat.simps
  strip_zeros.simps shortest_digits.simps digit_char_def char_of_def bit_Suc_0_iff
  floor_rat_numeral_div Let_def



lemma float_mul_1234_tenth:
  "float_mul (exact_float 1234) (Finite False (3602879701896397 / 36028797018963968))
     = Finite False (4341751515761869 / 35184372088832)"
  by (simp add: exact_float_def float_eval)

lemma py_round_123_4:
  "py_round (Finite False (4341751515761869 / 35184372088832)) (Suc 0)
     = Finite False (4341751515761869 / 35184372088832)
   \<and> py_round (Finite False (4341751515761869 / 35184372088832)) 2
     = Finite False (4341751515761869 / 35184372088832)"
  by (simp add: py_round_def float_eval)

lemma format_fixed_123_4:
  "format_fixed (Finite False (4341751515761869 / 35184372088832)) 2 = ''123.40''"
  by (simp add: format_fixed_def float_eval)

lemma py_float_of_str_0_10:
  "py_float_of_str ''0.10'' = Inr (Finite False (3602879701896397 / 36028797018963968))"
  by (simp add: py_float_of_str_def py_strip_def is_space_def parse_decimal_def is_digit_def
      nat_of_digits_def digit_value_def float_eval)

lemma wire_value_1234: "wire_value ''>H'' [0x04, 0xD2] 0 = 1234"
  by (simp add: wire_value_def wire_u16_def uint_cat16)

lemma decimal_places_examples: "decimal_places ''0.1'' = 1 \<and> decimal_places ''0.10'' = 2"
  by (simp add: decimal_places_def)



subsection \<open>A string scale\<close>

text \<open>
  Claim C2, as amended. For a descriptor of a 16-bit field whose scale is the string
  \<^verbatim>\<open>"0.10"\<close> and a buffer whose raw value at the descriptor's offset is 1234, the
  decode produces the string \<^verbatim>\<open>"123.40"\<close>: the two decimals of the scale's text.
\<close>

theorem C2_string_scale_keeps_two_decimals:
  assumes dt: "modbus_register_data_type d \<in> {''>H'', ''>h''}"
    and sc: "modbus_register_scale d = StrScale ''0.10''"
    and fn: "value_fn d = None"
    and off: "modbus_register_offset d = int i"
    and len: "i + 2 \<le> length payload"
    and raw: "wire_value (modbus_register_data_type d) payload i = 1234"
  shows "get_entity_description (Some payload) d = (VStr ''123.40'', [])"
proof -
  have dt': "modbus_register_data_type d \<in> {''>H'', ''>h'', ''>I''}"
    using dt by auto
  have len': "i + wire_size (modbus_register_data_type d) \<le> length payload"
    using dt len by (auto simp: wire_size_def)
  have rv: "raw_value payload d = Inr (VInt 1234)"
    using raw_value_numeric [OF dt' off len'] raw by simp
  have conv: "float_of_int 1234 = Inr (exact_float 1234)"
    by (rule float_of_int_exact) simp
  have digits: "scale_digits (StrScale ''0.10'') = 2"
    by (simp add: scale_digits_decimal_places str_of_scale_def decimal_places_examples)
  have "apply_scale (StrScale ''0.10'') (VInt 1234) = Inr (VStr ''123.40'')"
    by (simp add: apply_scale_def digits float_of_scale_def py_float_of_str_0_10 py_mul_float_def
        conv float_mul_1234_tenth py_round_123_4 format_fixed_123_4)
  then show ?thesis
    by (simp add: get_entity_description_def decode_try_body_def rv sc fn)
qed

theorem C2_string_scale_keeps_two_decimals_witness:
  "wire_value ''>H'' [0x00, 0x00, 0x04, 0xD2] 2 = 1234
   \<and> get_entity_description (Some [0x00, 0x00, 0x04, 0xD2])
       \<lparr>key = ''pv1_voltage'', modbus_register_offset = 2, modbus_register_data_type = ''>H'',
        modbus_register_scale = StrScale ''0.10'', value_fn = None\<rparr>
     = (VStr ''123.40'', [])"
proof -
  let ?d = "\<lparr>key = ''pv1_voltage'', modbus_register_offset = 2, modbus_register_data_type = ''>H'',
        modbus_register_scale = StrScale ''0.10'', value_fn = None\<rparr>"
  have dt: "modbus_register_data_type ?d \<in> {''>H'', ''>h''}" by simp
  have sc: "modbus_register_scale ?d = StrScale ''0.10''" by simp
  have fn: "value_fn ?d = None" by simp
  have off: "modbus_register_offset ?d = int 2" by simp
  have len: "2 + 2 \<le> length [0x00, 0x00, 0x04, 0xD2 :: byte]" by simp
  have raw: "wire_value (modbus_register_data_type ?d) [0x00, 0x00, 0x04, 0xD2] 2 = 1234"
    by (simp add: wire_value_def wire_u16_def uint_cat16)
  from C2_string_scale_keeps_two_decimals [OF dt sc fn off len raw] raw show ?thesis
    by simp
qed

text \<open>
  The claim as the specification states it fails: with the scale \<^verbatim>\<open>"0.10"\<close> and the
  raw value 1234 the decode gives \<^verbatim>\<open>"123.40"\<close>, which is not \<^verbatim>\<open>"123.4"\<close>.
\<close>

theorem C2_string_scale_counterexample:
  "get_entity_description (Some [0x04, 0xD2])
       \<lparr>key = ''pv1_voltage'', modbus_register_offset = 0, modbus_register_data_type = ''>H'',
        modbus_register_scale = StrScale ''0.10'', value_fn = None\<rparr>
     = (VStr ''123.40'', [])
   \<and> fst (get_entity_description (Some [0x04, 0xD2])
       \<lparr>key = ''pv1_voltage'', modbus_register_offset = 0, modbus_register_data_type = ''>H'',
        modbus_register_scale = StrScale ''0.10'', value_fn = None\<rparr>) \<noteq> VStr ''123.4''"
proof -
  have rv: "unpack_from ''>H'' [0x04, 0xD2] 0 = Inr [1234]"
    by (simp add: unpack_from_def struct_code_def be_uint_def)
  have conv: "float_of_int 1234 = Inr (exact_float 1234)"
    by (rule float_of_int_exact) simp
  have digits: "scale_digits (StrScale ''0.10'') = 2"
    by (simp add: scale_digits_def str_of_scale_def py_find_def)
  have "apply_scale (StrScale ''0.10'') (VInt 1234) = Inr (VStr ''123.40'')"
    by (simp add: apply_scale_def digits float_of_scale_def py_float_of_str_0_10 py_mul_float_def
        conv float_mul_1234_tenth py_round_123_4 format_fixed_123_4)
  then have "get_entity_description (Some [0x04, 0xD2])
       \<lparr>key = ''pv1_voltage'', modbus_register_offset = 0, modbus_register_data_type = ''>H'',
        modbus_register_scale = StrScale ''0.10'', value_fn = None\<rparr> = (VStr ''123.40'', [])"
    by (simp add: get_entity_description_def decode_try_body_def raw_value_def endswith_def rv)
  then show ?thesis by simp
qed

subsection \<open>Text fields\<close>




















section \<open>Properties of the poll coordinators\<close>

lemma async_refresh_not_ready:
  "\<not> ready c \<Longrightarrow> async_refresh c cl = (Inr (c\<lparr>data := None, last_update_success := True\<rparr>), cl)"
  by (simp add: async_refresh_def async_update_data_def)

lemma async_refresh_ready:
  "ready c \<Longrightarrow>
   async_refresh c cl =
     (case read_script cl (length (read_calls cl)) of
        Returns v \<Rightarrow> Inr (c\<lparr>data := v, last_update_success := True\<rparr>)
      | Raises e \<Rightarrow> if e = NotImplementedError then Inl e else Inr (c\<lparr>last_update_success := False\<rparr>),
      cl\<lparr>read_calls := read_calls cl @ [register_block (cls c)]\<rparr>)"
  by (simp add: async_refresh_def async_update_data_def async_fetch_data_def read_registers_def
      split: prod.splits outcome.splits)

lemma ticks_not_ready:
  "\<not> ready c \<Longrightarrow> \<exists>c'. ticks n c cl = (Inr c', cl) \<and> \<not> ready c' \<and> cls c' = cls c"
proof (induction n arbitrary: c)
  case 0
  then show ?case by simp
next
  case (Suc n)
  let ?c1 = "c\<lparr>data := None, last_update_success := True\<rparr>"
  have "\<not> ready ?c1" using Suc.prems by simp
  from Suc.IH [OF this] obtain c' where "ticks n ?c1 cl = (Inr c', cl)" "\<not> ready c'" "cls c' = cls ?c1"
    by blast
  then show ?case using Suc.prems by (simp add: async_refresh_not_ready)
qed

text \<open>
  Claim C4. Any number of ticks of a coordinator that is not ready leaves the client as it
  was, so \<^verbatim>\<open>read_registers\<close> was not called; and once the coordinator is marked
  ready, its next tick calls \<^verbatim>\<open>read_registers\<close> exactly once, for the register
  block of its class.
\<close>

theorem C4_no_read_until_ready:
  assumes "\<not> ready c"
  shows "\<exists>c'. ticks n c cl = (Inr c', cl)
           \<and> read_calls (snd (async_refresh (c'\<lparr>ready := True\<rparr>) cl))
               = read_calls cl @ [register_block (cls c)]"
proof -
  from ticks_not_ready [OF assms] obtain c' where t: "ticks n c cl = (Inr c', cl)" and k: "cls c' = cls c"
    by blast
  have "read_calls (snd (async_refresh (c'\<lparr>ready := True\<rparr>) cl)) = read_calls cl @ [register_block (cls c)]"
    using k by (simp add: async_refresh_ready)
  with t show ?thesis by blast
qed

theorem C4_no_read_until_ready_witness:
  "\<not> ready (new_coordinator SajR5MqttRealtimeDataCoordinator 60 ''realtime_data'')
   \<and> (\<exists>c'. ticks 3 (new_coordinator SajR5MqttRealtimeDataCoordinator 60 ''realtime_data'')
               \<lparr>read_calls = [], write_calls = [], read_script = (\<lambda>_. Raises TimeoutError),
                write_script = (\<lambda>_. Returns None)\<rparr>
             = (Inr c', \<lparr>read_calls = [], write_calls = [], read_script = (\<lambda>_. Raises TimeoutError),
                         write_script = (\<lambda>_. Returns None)\<rparr>)
           \<and> read_calls (snd (async_refresh (c'\<lparr>ready := True\<rparr>)
                 \<lparr>read_calls = [], write_calls = [], read_script = (\<lambda>_. Raises TimeoutError),
                  write_script = (\<lambda>_. Returns None)\<rparr>))
               = [(0x0100, 0x38)])"
proof -
  have nr: "\<not> ready (new_coordinator SajR5MqttRealtimeDataCoordinator 60 ''realtime_data'')"
    by (simp add: new_coordinator_def)
  from C4_no_read_until_ready [OF nr, of 3
      "\<lparr>read_calls = [], write_calls = [], read_script = (\<lambda>_. Raises TimeoutError),
        write_script = (\<lambda>_. Returns None)\<rparr>"] nr
  show ?thesis
    by (simp add: new_coordinator_def register_block_def)
qed

lemma mark_coordinators_ready_sets_flag:
  "coordinator_realtime_data (mark_coordinators_ready d) = (coordinator_realtime_data d)\<lparr>ready := True\<rparr>
   \<and> coordinator_inverter_data (mark_coordinators_ready d)
       = map_option (\<lambda>c. c\<lparr>ready := True\<rparr>) (coordinator_inverter_data d)"
  by (simp add: mark_coordinators_ready_def)

lemma async_refresh_failure:
  assumes "ready c" and "read_script cl (length (read_calls cl)) = Raises e"
    and "e = TimeoutError \<or> e = TransportDown"
  shows "async_refresh c cl =
           (Inr (c\<lparr>last_update_success := False\<rparr>),
            cl\<lparr>read_calls := read_calls cl @ [register_block (cls c)]\<rparr>)"
  using assms by (auto simp: async_refresh_ready)

text \<open>
  Claim C3. When the fetch of each of \<open>n\<close> consecutive polls of a ready coordinator
  fails with a timeout or with the transport down, every poll returns to its caller
  without raising, and the cached buffer is the one the coordinator had before.
\<close>

theorem C3_failed_poll_keeps_buffer:
  assumes "ready c"
    and "\<forall>k<n. read_script cl (length (read_calls cl) + k) = Raises TimeoutError
             \<or> read_script cl (length (read_calls cl) + k) = Raises TransportDown"
  shows "\<exists>c' cl'. ticks n c cl = (Inr c', cl') \<and> data c' = data c"
  using assms
proof (induction n arbitrary: c cl)
  case 0
  then show ?case by simp
next
  case (Suc n)
  let ?c1 = "c\<lparr>last_update_success := False\<rparr>"
  let ?cl1 = "cl\<lparr>read_calls := read_calls cl @ [register_block (cls c)]\<rparr>"
  from Suc.prems(2) have "read_script cl (length (read_calls cl) + 0) = Raises TimeoutError
             \<or> read_script cl (length (read_calls cl) + 0) = Raises TransportDown"
    by blast
  then obtain e where e: "read_script cl (length (read_calls cl)) = Raises e"
      "e = TimeoutError \<or> e = TransportDown"
    by auto
  have step: "async_refresh c cl = (Inr ?c1, ?cl1)"
    using Suc.prems(1) e by (rule async_refresh_failure)
  have r: "ready ?c1" using Suc.prems(1) by simp
  have s: "\<forall>k<n. read_script ?cl1 (length (read_calls ?cl1) + k) = Raises TimeoutError
             \<or> read_script ?cl1 (length (read_calls ?cl1) + k) = Raises TransportDown"
  proof (intro allI impI)
    fix k assume "k < n"
    then have "Suc k < Suc n" by simp
    with Suc.prems(2) have "read_script cl (length (read_calls cl) + Suc k) = Raises TimeoutError
             \<or> read_script cl (length (read_calls cl) + Suc k) = Raises TransportDown"
      by blast
    then show "read_script ?cl1 (length (read_calls ?cl1) + k) = Raises TimeoutError
             \<or> read_script ?cl1 (length (read_calls ?cl1) + k) = Raises TransportDown"
      by simp
  qed
  from Suc.IH [OF r s] obtain c' cl' where "ticks n ?c1 ?cl1 = (Inr c', cl')" "data c' = data ?c1"
    by blast
  then show ?case using step by simp
qed

theorem C3_failed_poll_keeps_buffer_witness:
  "\<exists>c' cl'. ticks 2
       \<lparr>cls = SajR5MqttRealtimeDataCoordinator, name = ''saj_r5_mqtt_realtime_data_coordinator'',
        update_interval = 60, data = Some [0x04, 0xD2], ready = True,
        last_update_success = True\<rparr>
       \<lparr>read_calls = [(0x0100, 0x38)], write_calls = [],
        read_script = (\<lambda>k. if k = 1 then Raises TimeoutError else Raises TransportDown),
        write_script = (\<lambda>_. Returns None)\<rparr> = (Inr c', cl')
     \<and> data c' = Some [0x04, 0xD2]"
proof -
  have r: "ready \<lparr>cls = SajR5MqttRealtimeDataCoordinator, name = ''saj_r5_mqtt_realtime_data_coordinator'',
        update_interval = 60, data = Some [0x04, 0xD2 :: byte], ready = True,
        last_update_success = True\<rparr>"
    by simp
  have s: "\<forall>k<2. read_script \<lparr>read_calls = [(0x0100, 0x38)], write_calls = [],
        read_script = (\<lambda>k. if k = 1 then Raises TimeoutError else Raises TransportDown),
        write_script = (\<lambda>_. Returns None)\<rparr>
          (length (read_calls \<lparr>read_calls = [(0x0100, 0x38)], write_calls = [],
        read_script = (\<lambda>k. if k = 1 then Raises TimeoutError else Raises TransportDown),
        write_script = (\<lambda>_. Returns None)\<rparr>) + k) = Raises TimeoutError
      \<or> read_script \<lparr>read_calls = [(0x0100, 0x38)], write_calls = [],
        read_script = (\<lambda>k. if k = 1 then Raises TimeoutError else Raises TransportDown),
        write_script = (\<lambda>_. Returns None)\<rparr>
          (length (read_calls \<lparr>read_calls = [(0x0100, 0x38)], write_calls = [],
        read_script = (\<lambda>k. if k = 1 then Raises TimeoutError else Raises TransportDown),
        write_script = (\<lambda>_. Returns None)\<rparr>) + k) = Raises TransportDown"
    by simp
  from C3_failed_poll_keeps_buffer [OF r s] show ?thesis
    by simp
qed

section \<open>Properties of the power limit\<close>

text \<open>
  Claim C10. For every whole value \<open>v\<close> from 0 to 110, setting the power limit calls
  \<^verbatim>\<open>write_register\<close> once with register \<^verbatim>\<open>0x801F\<close> and the integer \<open>10 v\<close>, and
  when that call returns, the setter raises (\<^verbatim>\<open>HomeAssistantError\<close>) exactly when the
  returned value is \<^verbatim>\<open>None\<close>.
\<close>

theorem C10_power_limit_write:
  assumes "v \<le> 110"
    and "write_script cl (length (write_calls cl)) = Returns r"
  shows "\<exists>res cl'. async_set_native_value power_limit cl (Finite False (of_nat v)) = (res, cl')
           \<and> write_calls cl' = write_calls cl @ [(0x801F, int (10 * v))]
           \<and> ((\<exists>e. res = Inl e) \<longleftrightarrow> r = None)
           \<and> (res = Inl HomeAssistantError \<longleftrightarrow> r = None)"
proof -
  have "v * 10 < 2 ^ 53" using assms(1) by simp
  then have m: "float_mul (Finite False (of_nat v)) (Finite False (of_nat 10)) = Finite False (of_nat (v * 10))"
    by (rule float_mul_small_nat)
  have sc: "value_scale power_limit = Finite False (of_nat 10)"
    by (simp add: power_limit_def)
  have i: "py_int_of_float (float_mul (Finite False (of_nat v)) (value_scale power_limit)) = Inr (int (10 * v))"
    unfolding sc m by (simp add: py_int_of_float_def mult.commute del: of_nat_mult)
  have reg: "modbus_register power_limit = 0x801F"
    by (simp add: power_limit_def)
  show ?thesis
    using assms(2)
    by (cases r) (simp_all add: async_set_native_value_def i reg write_register_def)
qed

theorem C10_power_limit_write_witness:
  "(50::nat) \<le> 110
   \<and> (\<exists>res cl'. async_set_native_value power_limit
          \<lparr>read_calls = [], write_calls = [], read_script = (\<lambda>_. Returns None),
           write_script = (\<lambda>_. Returns None)\<rparr> (Finite False (of_nat 50)) = (res, cl')
        \<and> write_calls cl' = [(0x801F, 500)]
        \<and> res = Inl HomeAssistantError)"
proof -
  have h: "(50::nat) \<le> 110" by simp
  have s: "write_script \<lparr>read_calls = [], write_calls = [], read_script = (\<lambda>_. Returns None),
           write_script = (\<lambda>_. Returns None)\<rparr>
          (length (write_calls \<lparr>read_calls = [], write_calls = [], read_script = (\<lambda>_. Returns None),
           write_script = (\<lambda>_. Returns None :: int option outcome)\<rparr>)) = Returns None"
    by simp
  from C10_power_limit_write [OF h s] h show ?thesis
    by simp
qed

section \<open>Properties of the setup\<close>

text \<open>
  Claim C1. With a configuration-data scan interval in the options, loading the package
  and setting up the entry raises \<^verbatim>\<open>ImportError\<close>: \<^verbatim>\<open>coordinator.py\<close> defines no
  \<^verbatim>\<open>SajR5MqttConfigDataCoordinator\<close>. The runtime data has no field for a
  configuration coordinator either: its constructor refuses the keyword
  \<^verbatim>\<open>coordinator_config_data\<close> with \<^verbatim>\<open>TypeError\<close>. No runtime data is stored.
\<close>

theorem C1_config_coordinator_setup_raises:
  "load_and_setup_entry True
      [CONF_SCAN_INTERVAL_REALTIME_DATA \<mapsto> 60, CONF_SCAN_INTERVAL_CONFIG_DATA \<mapsto> 300]
      False (Some ''homeassistant/status'') cl = Inl ImportError
   \<and> async_setup_entry True
      [CONF_SCAN_INTERVAL_REALTIME_DATA \<mapsto> 60, CONF_SCAN_INTERVAL_CONFIG_DATA \<mapsto> 300]
      False (Some ''homeassistant/status'') cl = Inl ImportError
   \<and> dataclass_init SajR5MqttData_fields
        [''mqtt_client'', ''coordinator_realtime_data'', ''coordinator_inverter_data'',
         ''coordinator_config_data''] = Inl TypeError"
  by (simp add: load_and_setup_entry_def async_setup_entry_def import_from_def
      coordinator_module_def init_imports_from_coordinator_def optional_interval_def
      dataclass_init_def SajR5MqttData_fields_def CONF_SCAN_INTERVAL_REALTIME_DATA_def
      CONF_SCAN_INTERVAL_CONFIG_DATA_def CONF_SCAN_INTERVAL_INVERTER_DATA_def)

section \<open>Properties of the transport bridge\<close>

lemma outstanding_append:
  "outstanding (xs @ ys) = foldl outstanding_step (outstanding xs) ys"
  by (simp add: outstanding_def)

lemma foldl_outstanding_None: "foldl outstanding_step None xs = None"
  by (induction xs) simp_all

lemma foldl_outstanding_failed_waiters:
  "foldl outstanding_step (Some None) (map (\<lambda>(c, _). Resolve c r) ws) = Some None"
  by (induction ws) (simp_all add: case_prod_beta)

lemma bridge_inv_init: "bridge_inv bridge_init"
  by (simp add: bridge_inv_def bridge_init_def outstanding_def)

lemma bridge_inv_serve_next:
  assumes "outstanding (sent b) = Some None"
  shows "bridge_inv (serve_next b)"
  using assms
  by (cases "waiting b") (auto simp: bridge_inv_def serve_next_def outstanding_append)

lemma outstanding_resolve:
  assumes "bridge_inv b" and "in_flight b = Some (c, f)"
  shows "outstanding (sent (resolve c r b)) = Some None"
  using assms by (simp add: bridge_inv_def resolve_def outstanding_append)

lemma bridge_inv_step:
  assumes "bridge_inv b"
  shows "bridge_inv (bridge_step b i)"
proof (cases "in_flight b")
  case None
  with assms show ?thesis
    by (cases i) (simp_all add: bridge_inv_def outstanding_append)
next
  case (Some cf)
  obtain c f where cf: "cf = (c, f)" by (cases cf)
  have free: "\<And>r. bridge_inv (serve_next (resolve c r b))"
    using assms Some cf by (intro bridge_inv_serve_next outstanding_resolve) simp_all
  show ?thesis
  proof (cases i)
    case (Request c' f')
    with assms Some show ?thesis by (simp add: bridge_inv_def)
  next
    case (Message m)
    with assms Some cf free show ?thesis by simp
  next
    case Deadline
    with Some cf free show ?thesis by simp
  next
    case Connection_Lost
    with assms Some cf show ?thesis
      by (simp add: bridge_inv_def outstanding_append foldl_outstanding_failed_waiters)
  next
    case Disconnect
    with assms Some cf show ?thesis
      by (simp add: bridge_inv_def outstanding_append)
  qed
qed

lemma bridge_inv_foldl: "bridge_inv b \<Longrightarrow> bridge_inv (foldl bridge_step b inputs)"
  by (induction inputs arbitrary: b) (simp_all add: bridge_inv_step)

lemma bridge_run_serialized: "serialized (sent (bridge_run inputs))"
  using bridge_inv_foldl [OF bridge_inv_init, of inputs]
  by (simp add: serialized_def bridge_run_def bridge_inv_def)

lemma foldl_outstanding_prefix:
  "foldl outstanding_step s (xs @ ys) \<noteq> None \<Longrightarrow> foldl outstanding_step s xs \<noteq> None"
proof
  assume a: "foldl outstanding_step s (xs @ ys) \<noteq> None" and b: "foldl outstanding_step s xs = None"
  have "foldl outstanding_step s (xs @ ys) = foldl outstanding_step None ys"
    by (simp add: b)
  with a show False by (simp add: foldl_outstanding_None)
qed

lemma outstanding_after_publish:
  "outstanding_step s (Publish c f) \<noteq> None \<Longrightarrow> outstanding_step s (Publish c f) = Some (Some c)"
  by (cases "(s, Publish c f)" rule: outstanding_step.cases) simp_all

lemma outstanding_before_publish:
  "outstanding_step s (Publish c f) \<noteq> None \<Longrightarrow> s = Some None"
  by (cases "(s, Publish c f)" rule: outstanding_step.cases) simp_all

lemma outstanding_kept_without_resolve:
  assumes "\<forall>r. Resolve c r \<notin> set xs"
    and "foldl outstanding_step (Some (Some c)) xs \<noteq> None"
  shows "foldl outstanding_step (Some (Some c)) xs = Some (Some c)"
  using assms
proof (induction xs)
  case Nil
  then show ?case by simp
next
  case (Cons x xs)
  show ?case
  proof (cases x)
    case (Publish c' f')
    with Cons.prems(2) show ?thesis by (simp add: foldl_outstanding_None)
  next
    case (Resolve c' r)
    with Cons.prems(1) have "c' \<noteq> c" by auto
    with Resolve Cons show ?thesis by simp
  qed
qed

lemma serialized_publishes:
  assumes ser: "serialized outs"
    and ij: "i < j" "j < length outs"
    and pi: "outs ! i = Publish c f"
    and pj: "outs ! j = Publish c' f'"
  shows "\<exists>k r. i < k \<and> k < j \<and> outs ! k = Resolve c r"
proof (rule ccontr)
  assume no: "\<not> (\<exists>k r. i < k \<and> k < j \<and> outs ! k = Resolve c r)"
  define pre where "pre = take i outs"
  define mid where "mid = take (j - Suc i) (drop (Suc i) outs)"
  have "i < length outs" using ij by simp
  then have split1: "outs = pre @ Publish c f # drop (Suc i) outs"
    unfolding pre_def using pi by (metis id_take_nth_drop)
  have "drop (Suc i) outs ! (j - Suc i) = outs ! j" using ij by simp
  moreover have "j - Suc i < length (drop (Suc i) outs)" using ij by simp
  ultimately obtain rest where split2: "drop (Suc i) outs = mid @ Publish c' f' # rest"
    using pj unfolding mid_def by (metis id_take_nth_drop)
  have "pre @ Publish c f # drop (Suc i) outs = (pre @ [Publish c f] @ mid @ [Publish c' f']) @ rest"
    by (subst split2) simp
  with split1 have outs_eq: "outs = (pre @ [Publish c f] @ mid @ [Publish c' f']) @ rest"
    by simp
  have "foldl outstanding_step (Some None) outs \<noteq> None"
    using ser by (simp add: serialized_def outstanding_def)
  then have all: "foldl outstanding_step (Some None) (pre @ [Publish c f] @ mid @ [Publish c' f']) \<noteq> None"
    by (subst (asm) outs_eq) (rule foldl_outstanding_prefix)
  define s1 where "s1 = foldl outstanding_step (Some None) pre"
  define s3 where "s3 = foldl outstanding_step (outstanding_step s1 (Publish c f)) mid"
  from all have last: "outstanding_step s3 (Publish c' f') \<noteq> None"
    by (simp add: s1_def s3_def)
  then have s3: "s3 = Some None" by (rule outstanding_before_publish)
  then have "foldl outstanding_step (outstanding_step s1 (Publish c f)) mid \<noteq> None"
    by (simp add: s3_def)
  then have "outstanding_step s1 (Publish c f) \<noteq> None"
    using foldl_outstanding_None [of mid] by (cases "outstanding_step s1 (Publish c f)") simp_all
  then have s2: "outstanding_step s1 (Publish c f) = Some (Some c)"
    by (rule outstanding_after_publish)
  have nomid: "\<forall>r. Resolve c r \<notin> set mid"
  proof (intro allI notI)
    fix r assume "Resolve c r \<in> set mid"
    then obtain n where n: "n < length mid" "mid ! n = Resolve c r"
      by (auto simp: in_set_conv_nth)
    then have "n < j - Suc i" by (simp add: mid_def)
    moreover from this have "outs ! (Suc i + n) = Resolve c r"
      using n ij by (simp add: mid_def)
    moreover have "i < Suc i + n" by simp
    ultimately show False using no by (metis add.commute less_diff_conv)
  qed
  have "s3 = Some (Some c)"
    unfolding s3_def s2 using nomid s3 by (intro outstanding_kept_without_resolve) (simp_all add: s3_def s2)
  with s3 show False by simp
qed

text \<open>
  Claim C5. In every run of the bridge, whatever the interleaving of the callers, the
  responses and the deadlines: between the publish of one request and any later publish
  the first request has resolved. So at most one request is in flight.
\<close>

theorem C5_requests_are_serialized:
  assumes "i < j" and "j < length (sent (bridge_run inputs))"
    and "sent (bridge_run inputs) ! i = Publish c f"
    and "sent (bridge_run inputs) ! j = Publish c' f'"
  shows "\<exists>k r. i < k \<and> k < j \<and> sent (bridge_run inputs) ! k = Resolve c r"
  using bridge_run_serialized assms by (rule serialized_publishes)

theorem C5_requests_are_serialized_witness:
  "sent (bridge_run
      [Request 2 \<lparr>function_code = Read, register_start = 0x0100, count_or_value = 0x38\<rparr>,
       Request 3 \<lparr>function_code = Read, register_start = 0x8F00, count_or_value = 0x1D\<rparr>,
       Deadline])
     = [Publish 2 \<lparr>function_code = Read, register_start = 0x0100, count_or_value = 0x38\<rparr>,
        Resolve 2 (Inl Timeout),
        Publish 3 \<lparr>function_code = Read, register_start = 0x8F00, count_or_value = 0x1D\<rparr>]
   \<and> (\<exists>k r. 0 < k \<and> k < 2
        \<and> sent (bridge_run
              [Request 2 \<lparr>function_code = Read, register_start = 0x0100, count_or_value = 0x38\<rparr>,
               Request 3 \<lparr>function_code = Read, register_start = 0x8F00, count_or_value = 0x1D\<rparr>,
               Deadline]) ! k = Resolve 2 r)"
proof -
  let ?f1 = "\<lparr>function_code = Read, register_start = 0x0100, count_or_value = 0x38\<rparr>"
  let ?f2 = "\<lparr>function_code = Read, register_start = 0x8F00, count_or_value = 0x1D\<rparr>"
  let ?inputs = "[Request 2 ?f1, Request 3 ?f2, Deadline]"
  have run: "sent (bridge_run ?inputs) = [Publish 2 ?f1, Resolve 2 (Inl Timeout), Publish 3 ?f2]"
    by (simp add: bridge_run_def bridge_init_def serve_next_def resolve_def)
  have ij: "(0::nat) < 2" by simp
  have len: "2 < length (sent (bridge_run ?inputs))" by (simp add: run)
  have pi: "sent (bridge_run ?inputs) ! 0 = Publish 2 ?f1" by (simp add: run)
  have pj: "sent (bridge_run ?inputs) ! 2 = Publish 3 ?f2" by (simp add: run)
  from C5_requests_are_serialized [OF ij len pi pj] run show ?thesis
    by simp
qed

end
